theory Spec2Isabelle
  imports Complex_Main "HOL-Library.Word"
begin

section \<open>Package gamma: transfer functions and lookup tables\<close>

text \<open>
  Conventions of the embedding.
  \<^item> Go's \<open>float64\<close> is modelled by \<open>real\<close>: arithmetic is exact, there is no rounding,
    no infinity and no NaN. Every statement below about a \<open>float64\<close> value is a
    statement about this idealisation.
  \<^item> A Go function value that returns a \<open>float64\<close> is modelled with result type
    \<open>real option\<close>: \<open>None\<close> stands for a call that produces no number (a run-time
    panic such as an index out of range, or the NaN of \<open>0.0 / 0.0\<close>).
  \<^item> A Go slice is modelled by the list of its elements; a nil slice and an empty
    slice both have length 0 and are the same list \<open>[]\<close>.
  \<^item> \<open>C.ushort\<close> is a 16-bit word.
\<close>

datatype Channel = Red | Green | Blue

type_synonym float64 = real

type_synonym XferFn = "Channel \<Rightarrow> float64 \<Rightarrow> float64 option"

type_synonym ushort = "16 word"

text \<open>\<open>func (a XferFn) Chain(b XferFn) XferFn\<close>: \<open>return b(ch, a(ch, in))\<close>.\<close>

definition XferFn_Chain :: "XferFn \<Rightarrow> XferFn \<Rightarrow> XferFn" where
  "XferFn_Chain a b = (\<lambda>ch inp. case a ch inp of None \<Rightarrow> None | Some y \<Rightarrow> b ch y)"

text \<open>\<open>func (a XferFn) Mul(b XferFn) XferFn\<close>: \<open>return a(ch, in) * b(ch, in)\<close>,
  the left operand evaluated first.\<close>

definition XferFn_Mul :: "XferFn \<Rightarrow> XferFn \<Rightarrow> XferFn" where
  "XferFn_Mul a b = (\<lambda>ch inp.
     case a ch inp of
       None \<Rightarrow> None
     | Some u \<Rightarrow> (case b ch inp of None \<Rightarrow> None | Some v \<Rightarrow> Some (u * v)))"

text \<open>\<open>LookupTable\<close>: the field \<open>t [_channel_cardinality_][][]C.ushort\<close>, indexed
  \<open>[channel][crtc][idx]\<close>. The fixed-size outer array is a function of the channel.\<close>

record LookupTable =
  lut_t :: "Channel \<Rightarrow> ushort list list"

text \<open>The zero value \<open>LookupTable{}\<close>: every channel holds the nil slice.\<close>

definition LookupTable_zero :: LookupTable where
  "LookupTable_zero = \<lparr>lut_t = (\<lambda>ch. [])\<rparr>"

text \<open>The three nested loops of \<open>Equals\<close>, innermost first. Each returns \<open>False\<close>
  where the source executes \<open>return false\<close>.\<close>

function equals_idx :: "ushort list \<Rightarrow> ushort list \<Rightarrow> nat \<Rightarrow> bool" where
  "equals_idx a2 b2 idx =
     (if idx < length a2 then
        (if a2 ! idx \<noteq> b2 ! idx then False else equals_idx a2 b2 (Suc idx))
      else True)"
  by pat_completeness auto
termination
  by (relation "measure (\<lambda>(a2, b2, idx). length a2 - idx)") auto

declare equals_idx.simps [simp del]

function equals_crtc :: "ushort list list \<Rightarrow> ushort list list \<Rightarrow> nat \<Rightarrow> bool" where
  "equals_crtc a1 b1 crtc =
     (if crtc < length a1 then
        (let a2 = a1 ! crtc; b2 = b1 ! crtc in
         if length a2 \<noteq> length b2 then False
         else if \<not> equals_idx a2 b2 0 then False
         else equals_crtc a1 b1 (Suc crtc))
      else True)"
  by pat_completeness auto
termination
  by (relation "measure (\<lambda>(a1, b1, crtc). length a1 - crtc)") auto

declare equals_crtc.simps [simp del]

fun equals_ch :: "LookupTable \<Rightarrow> LookupTable \<Rightarrow> Channel list \<Rightarrow> bool" where
  "equals_ch lt ot [] = True"
| "equals_ch lt ot (ch # chs) =
     (let a1 = lut_t lt ch; b1 = lut_t ot ch in
      if length a1 \<noteq> length b1 then False
      else if \<not> equals_crtc a1 b1 0 then False
      else equals_ch lt ot chs)"

definition LookupTable_Equals :: "LookupTable \<Rightarrow> LookupTable \<Rightarrow> bool" where
  "LookupTable_Equals lt ot = equals_ch lt ot [Red, Green, Blue]"

text \<open>\<open>IsZero\<close>: \<open>lt.t[0] == nil\<close>. Inside the package a non-nil \<open>t[0]\<close> is only ever
  built by \<open>make([][]C.ushort, 1, 1)\<close>, so nil is the empty list here.\<close>

definition LookupTable_IsZero :: "LookupTable \<Rightarrow> bool" where
  "LookupTable_IsZero lt = (lut_t lt Red = [])"

text \<open>\<open>math.Modf\<close>: integer and fractional part, both with the sign of the argument;
  \<open>int(f)\<close>: conversion of a float to an integer truncates towards zero.\<close>

definition float_trunc :: "float64 \<Rightarrow> int" where
  "float_trunc f = (if f < 0 then \<lceil>f\<rceil> else \<lfloor>f\<rfloor>)"

definition Modf :: "float64 \<Rightarrow> float64 \<times> float64" where
  "Modf f = (let i = of_int (float_trunc f) in (i, f - i))"

text \<open>Indexing a slice with an \<open>int\<close>: out of range is a run-time panic.\<close>

definition index :: "'a list \<Rightarrow> int \<Rightarrow> 'a option" where
  "index xs i = (if 0 \<le> i \<and> i < int (length xs) then Some (xs ! nat i) else None)"

definition float64_of_ushort :: "ushort \<Rightarrow> float64" where
  "float64_of_ushort w = real (unat w)"

text \<open>The loop over the controllers in the function returned by \<open>LookupTable.XferFn\<close>.
  The guard of the interpolating branch is the source's \<open>int(base) < len(t)-1\<close>, where
  \<open>t\<close> is the slice of controllers, not the controller's table \<open>lut\<close>.\<close>

function xfer_loop :: "ushort list list \<Rightarrow> float64 \<Rightarrow> nat \<Rightarrow> float64 \<Rightarrow> float64 option" where
  "xfer_loop t inp crtc acc =
     (if crtc < length t then
        (let lut = t ! crtc;
             (base, frac) = Modf (inp * real (length lut));
             i = float_trunc base
         in if i < int (length t) - 1 then
              (case index lut i of
                 None \<Rightarrow> None
               | Some lo \<Rightarrow>
                   (case index lut (i + 1) of
                      None \<Rightarrow> None
                    | Some hi \<Rightarrow>
                        xfer_loop t inp (Suc crtc)
                          (acc + (float64_of_ushort lo * (1 - frac) + float64_of_ushort hi * frac))))
            else
              (case index lut i of
                 None \<Rightarrow> None
               | Some lo \<Rightarrow> xfer_loop t inp (Suc crtc) (acc + float64_of_ushort lo)))
      else Some acc)"
  by pat_completeness auto
termination
  by (relation "measure (\<lambda>(t, inp, crtc, acc). length t - crtc)") auto

declare xfer_loop.simps [simp del]

text \<open>\<open>func (lt LookupTable) XferFn() XferFn\<close>. With no controller the source
  returns \<open>0.0 / 0.0 / 65535.0\<close>, which is NaN.\<close>

definition LookupTable_XferFn :: "LookupTable \<Rightarrow> XferFn" where
  "LookupTable_XferFn lt = (\<lambda>ch inp.
     let t = lut_t lt ch; crtcs = real (length t) in
     case xfer_loop t inp 0 0 of
       None \<Rightarrow> None
     | Some acc \<Rightarrow> if crtcs = 0 then None else Some (acc / crtcs / 65535))"

text \<open>\<open>DimFn\<close>: \<open>coef = math.Max(math.Min(coef, 1), 0)\<close>, then \<open>in * coef\<close>.\<close>

definition DimFn :: "float64 \<Rightarrow> XferFn" where
  "DimFn coef = (let coef' = max (min coef 1) 0 in (\<lambda>ch inp. Some (inp * coef')))"

section \<open>Durations\<close>

text \<open>\<open>time.Duration\<close> is an \<open>int64\<close> count of nanoseconds. It is modelled by \<open>int\<close>
  with the two's-complement wrap-around of every subtraction and negation written out.\<close>

type_synonym Duration = int

definition wrap64 :: "int \<Rightarrow> int" where
  "wrap64 x = (x + 2 ^ 63) mod 2 ^ 64 - 2 ^ 63"

definition dsub :: "Duration \<Rightarrow> Duration \<Rightarrow> Duration" where
  "dsub a b = wrap64 (a - b)"

definition dneg :: "Duration \<Rightarrow> Duration" where
  "dneg a = wrap64 (- a)"

definition Millisecond :: Duration where
  "Millisecond = 1000000"

definition Second :: Duration where
  "Second = 1000000000"

definition float64_of_Duration :: "Duration \<Rightarrow> float64" where
  "float64_of_Duration d = of_int d"

section \<open>Package alert: effects and the driver function Xft\<close>

text \<open>\<open>Cmd\<close>: an integer type with the four named values. An event holding any other
  \<open>Cmd\<close> value matches no case of the switch and behaves as \<open>noCmd\<close>.\<close>

datatype Cmd = noCmd | Warble | Strobe | Exit

record effect =
  effect_start :: Duration
  effect_apply :: "Duration \<Rightarrow> float64 \<Rightarrow> float64 \<times> bool"

text \<open>\<open>warble\<close> and \<open>strobe\<close> return \<open>(out, done)\<close>; \<open>done\<close> keeps its zero value
  \<open>false\<close> in the else branch.\<close>

definition warble :: "Duration \<Rightarrow> float64 \<Rightarrow> float64 \<times> bool" where
  "warble since inp =
     (let period = 125 * Millisecond;
          cycles = 5;
          weight = 1 / 12;
          duration = period * cycles
      in if since > duration then (inp, True)
         else
           (let pos = snd (Modf (float64_of_Duration since / float64_of_Duration period));
                pow = cos (2 * pi * pos) / 2 + 0.5
            in (1 - ((1 - inp) * ((1 - weight) + weight * pow)), False)))"

definition strobe :: "Duration \<Rightarrow> float64 \<Rightarrow> float64 \<times> bool" where
  "strobe since inp =
     (let duration = 1250 * Millisecond
      in if since > duration then (inp, True)
         else
           (let pos = float64_of_Duration since / float64_of_Duration duration
            in (1 - ((1 - inp) * (0.5 + 0.5 * pos)), False)))"

datatype stageT = enter | static | exit

definition enterExitDuration :: Duration where
  "enterExitDuration = 250 * Millisecond"

text \<open>The variables captured by the closure that \<open>Xft\<close> returns. \<open>cmd\<close> is assigned
  from the event at the start of every call and is a local here.\<close>

record Xft_vars =
  stage :: stageT
  stageStart :: Duration
  sinceStage :: Duration
  strength :: float64
  effects :: "effect list"
  effectStrength :: float64
  rCmp :: float64
  oCmp :: float64

text \<open>The zero values at the time \<open>Xft()\<close> returns.\<close>

definition Xft_init :: Xft_vars where
  "Xft_init = \<lparr>stage = enter, stageStart = 0, sinceStage = 0, strength = 0, effects = [],
                effectStrength = 0, rCmp = 0, oCmp = 0\<rparr>"

definition setStage :: "Duration \<Rightarrow> stageT \<Rightarrow> Xft_vars \<Rightarrow> Xft_vars" where
  "setStage t s v = v\<lparr>stage := s, stageStart := t, sinceStage := 0\<rparr>"

text \<open>\<open>switch cmd\<close>.\<close>

definition switch_cmd :: "Duration \<Rightarrow> Cmd \<Rightarrow> Xft_vars \<Rightarrow> Xft_vars" where
  "switch_cmd t cmd v =
     (case cmd of
        noCmd \<Rightarrow> v
      | Warble \<Rightarrow> v\<lparr>effects := effects v @ [\<lparr>effect_start = t, effect_apply = warble\<rparr>]\<rparr>
      | Strobe \<Rightarrow> v\<lparr>effects := effects v @ [\<lparr>effect_start = t, effect_apply = strobe\<rparr>]\<rparr>
      | Exit \<Rightarrow>
          (case stage v of
             static \<Rightarrow> setStage t exit v
           | enter \<Rightarrow>
               (let v1 = v\<lparr>stage := exit\<rparr>;
                    v2 = v1\<lparr>sinceStage := dsub enterExitDuration (sinceStage v1)\<rparr>
                in v2\<lparr>stageStart := dsub t (sinceStage v2)\<rparr>)
           | exit \<Rightarrow> v))"

text \<open>\<open>switch stage\<close>: the new variables, \<open>sleepFor\<close> and \<open>exitFlag\<close>.\<close>

definition switch_stage :: "Duration \<Rightarrow> Xft_vars \<Rightarrow> Xft_vars \<times> Duration \<times> bool" where
  "switch_stage t v =
     (case stage v of
        static \<Rightarrow> (v\<lparr>strength := 1\<rparr>, 2 * Second, False)
      | enter \<Rightarrow>
          (let v1 = v\<lparr>strength := float64_of_Duration (sinceStage v) /
                                   float64_of_Duration enterExitDuration\<rparr>
           in if strength v1 \<ge> 1 then (setStage t static (v1\<lparr>strength := 1\<rparr>), 0, False)
              else (v1, 0, False))
      | exit \<Rightarrow>
          (let v1 = v\<lparr>strength := 1 - float64_of_Duration (sinceStage v) /
                                       float64_of_Duration enterExitDuration\<rparr>
           in if strength v1 < 0 then (v1\<lparr>strength := 0\<rparr>, 0, True)
              else (v1, 0, False)))"

text \<open>The loop over the effects: a finished effect is overwritten by the last one and
  the slice shrinks; otherwise \<open>sleepFor\<close> is reset and the index advances.\<close>

function effects_loop ::
  "Duration \<Rightarrow> nat \<Rightarrow> effect list \<Rightarrow> float64 \<Rightarrow> Duration \<Rightarrow> effect list \<times> float64 \<times> Duration" where
  "effects_loop t idx effs es sleepFor =
     (if idx < length effs then
        (let eff = effs ! idx;
             r = effect_apply eff (dsub t (effect_start eff)) es
         in if snd r then
              effects_loop t idx
                (take (length effs - 1)
                   (if idx < length effs - 1 then effs[idx := effs ! (length effs - 1)] else effs))
                (fst r) sleepFor
            else effects_loop t (Suc idx) effs (fst r) 0)
      else (effs, es, sleepFor))"
  by pat_completeness auto
termination
  by (relation "measure (\<lambda>(t, idx, effs, es, sleepFor). length effs - idx)") auto

declare effects_loop.simps [simp del]

text \<open>The function value \<open>fn\<close> that a call returns, read with the values that
  \<open>strength\<close>, \<open>rCmp\<close> and \<open>oCmp\<close> hold when the call returns. (The Go closure
  captures these variables by reference; the animation loop applies \<open>fn\<close> before
  it calls the driver again.)\<close>

definition Xft_fn :: "Xft_vars \<Rightarrow> XferFn \<Rightarrow> XferFn" where
  "Xft_fn v baseFn = (\<lambda>ch inp.
     case baseFn ch inp of
       None \<Rightarrow> None
     | Some base \<Rightarrow>
         (let fx = (case ch of
                      Red \<Rightarrow> base * (1 - rCmp v) + rCmp v
                    | Green \<Rightarrow> base * (1 - oCmp v)
                    | Blue \<Rightarrow> base * (1 - oCmp v))
          in Some (strength v * fx + (1 - strength v) * base)))"

text \<open>One call of the closure: \<open>(fn, sleepFor, exitFlag)\<close> and the variables after it.
  The event is nil or a \<open>Cmd\<close>; an event of another dynamic type makes the type
  assertion \<open>event.(Cmd)\<close> panic and is excluded by the type of the argument.\<close>

definition Xft_call ::
  "Xft_vars \<Rightarrow> Duration \<Rightarrow> XferFn \<Rightarrow> Cmd option \<Rightarrow> (XferFn \<times> Duration \<times> bool) \<times> Xft_vars" where
  "Xft_call v t baseFn event =
     (let cmd = (case event of None \<Rightarrow> noCmd | Some c \<Rightarrow> c);
          v1 = v\<lparr>sinceStage := dsub t (stageStart v)\<rparr>;
          v2 = switch_cmd t cmd v1;
          st = switch_stage t v2;
          v3 = fst st;
          fx = effects_loop t 0 (effects v3) 0 (fst (snd st));
          v4 = v3\<lparr>effects := fst fx, effectStrength := fst (snd fx),
                  rCmp := 0.2 + fst (snd fx) * 0.6, oCmp := 0 + fst (snd fx) * 0.6\<rparr>
      in ((Xft_fn v4 baseFn, snd (snd fx), snd (snd st)), v4))"

section \<open>Package gamma: sessions\<close>

text \<open>The errors of the packages: the four \<open>fmt.Errorf\<close> values of \<open>NewSession\<close>
  and \<open>GetLookupTable\<close>, and the variable \<open>ForeignCrtcUpdate\<close> of package animate.\<close>

datatype error =
    ErrScreenResources
  | ErrCrtcGammaSize
  | ErrAllocGamma
  | ErrCrtcGamma
  | ForeignCrtcUpdate

datatype 'a result = Ok 'a | Err error | Panic

text \<open>A \<open>Session\<close> is reduced to the gamma sizes of its CRTCs (\<open>crtcGamma.size\<close>), in
  the order of \<open>s.crtcs\<close>. The client is taken to be open, so \<open>check\<close> does not panic.\<close>

record Session =
  crtcs :: "nat list"

text \<open>What the X server answers to \<open>NewSession\<close>: \<open>None\<close> when
  \<open>XRRGetScreenResourcesCurrent\<close> returns nil, otherwise for each CRTC the value of
  \<open>XRRGetCrtcGammaSize\<close> and whether \<open>XRRAllocGamma\<close> returned a non-nil pointer.\<close>

type_synonym XRRScreenResources = "(nat \<times> bool) list"

fun NewSession_crtcs :: "XRRScreenResources \<Rightarrow> error + nat list" where
  "NewSession_crtcs [] = Inr []"
| "NewSession_crtcs ((sz, allocated) # rest) =
     (if sz = 0 then Inl ErrCrtcGammaSize
      else if allocated then
        (case NewSession_crtcs rest of Inl e \<Rightarrow> Inl e | Inr szs \<Rightarrow> Inr (sz # szs))
      else Inl ErrAllocGamma)"

definition NewSession :: "XRRScreenResources option \<Rightarrow> error + Session" where
  "NewSession res =
     (case res of
        None \<Rightarrow> Inl ErrScreenResources
      | Some cs \<Rightarrow>
          (case NewSession_crtcs cs of Inl e \<Rightarrow> Inl e | Inr szs \<Rightarrow> Inr \<lparr>crtcs = szs\<rparr>))"

text \<open>What the X server answers to \<open>XRRGetCrtcGamma\<close> for the primary CRTC: \<open>None\<close> for
  nil, otherwise the three gamma vectors, read at the indices below the size.\<close>

type_synonym XRRCrtcGamma = "Channel \<Rightarrow> nat \<Rightarrow> ushort"

text \<open>\<open>GetLookupTable\<close> reads the first CRTC only (\<open>crtcs = 1\<close>); the slice expression
  \<open>s.crtcs[0:crtcs]\<close> panics when the session has no CRTC.\<close>

definition GetLookupTable :: "Session \<Rightarrow> XRRCrtcGamma option \<Rightarrow> LookupTable result" where
  "GetLookupTable s gamma =
     (case crtcs s of
        [] \<Rightarrow> Panic
      | sz # _ \<Rightarrow>
          (case gamma of
             None \<Rightarrow> Err ErrCrtcGamma
           | Some gv \<Rightarrow> Ok \<lparr>lut_t = (\<lambda>ch. [map (gv ch) [0..<sz]])\<rparr>))"

text \<open>\<open>SetGamma\<close> calls \<open>fn(ch, float64(idx) / float64(size))\<close> for every CRTC, channel
  and index below the size. It returns unless one of these calls panics.\<close>

definition SetGamma_returns :: "Session \<Rightarrow> XferFn \<Rightarrow> bool" where
  "SetGamma_returns s fn =
     list_all (\<lambda>sz.
       list_all (\<lambda>ch.
         list_all (\<lambda>idx. fn ch (real idx / real sz) \<noteq> None) [0..<sz])
       [Red, Green, Blue])
     (crtcs s)"

section \<open>Package animate\<close>

text \<open>\<open>time.Time\<close> is modelled by the number of nanoseconds since the zero \<open>Time\<close>.
  \<open>Time.Sub\<close> returns the maximum (minimum) \<open>Duration\<close> when the difference exceeds it.\<close>

type_synonym Time = int

definition maxDuration :: Duration where
  "maxDuration = 2 ^ 63 - 1"

definition minDuration :: Duration where
  "minDuration = - (2 ^ 63)"

definition Time_Sub :: "Time \<Rightarrow> Time \<Rightarrow> Duration" where
  "Time_Sub t u =
     (let d = t - u in
      if d > maxDuration then maxDuration else if d < minDuration then minDuration else d)"

definition Time_Add :: "Time \<Rightarrow> Duration \<Rightarrow> Time" where
  "Time_Add t d = t + d"

text \<open>The fields of \<open>options\<close> that are not channels, the client or the driver.\<close>

record options =
  startClockBeforeSetup :: bool
  initialClock :: Duration
  updateInterval :: Duration
  exitOnForeignUpdate :: bool
  restoreOnExit :: bool

text \<open>The defaults set by \<open>Animate\<close>; \<open>time.Second / 30\<close> is an integer division.\<close>

definition default_options :: options where
  "default_options =
     \<lparr>startClockBeforeSetup = False, initialClock = 0, updateInterval = Second div 30,
      exitOnForeignUpdate = True, restoreOnExit = True\<rparr>"

text \<open>A driver function of type \<open>XferFnAtTime\<close> with its private state made explicit.
  It is taken to return: a driver that panics is outside the model.\<close>

type_synonym ('s, 'e) XferFnAtTime =
  "'s \<Rightarrow> Duration \<Rightarrow> XferFn \<Rightarrow> 'e option \<Rightarrow> (XferFn \<times> Duration \<times> bool) \<times> 's"

text \<open>The variables of \<open>animate\<close> that live across iterations, with
  \<open>o.restoreOnExit\<close>, which the loop assigns, and the state of the driver. A nil
  function value is the function whose every call panics.\<close>

record ('s, 'e) vars =
  var_exit :: bool
  var_err :: "error option"
  var_lastUpdate :: Time
  var_oldLut :: LookupTable
  var_baseFn :: XferFn
  var_event :: "'e option"
  var_restoreOnExit :: bool
  xft_state :: 's

definition nil_XferFn :: XferFn where
  "nil_XferFn = (\<lambda>ch inp. None)"

definition init_vars :: "options \<Rightarrow> 's \<Rightarrow> ('s, 'e) vars" where
  "init_vars opts xs =
     \<lparr>var_exit = False, var_err = None, var_lastUpdate = 0, var_oldLut = LookupTable_zero,
      var_baseFn = nil_XferFn, var_event = None, var_restoreOnExit = restoreOnExit opts,
      xft_state = xs\<rparr>"

text \<open>What the select statement receives: the closed cancel channel, an event (which
  may be the nil interface value), or the timer.\<close>

datatype 'e wakeup = Cancelled | Event "'e option" | TimerFired

text \<open>What the world outside the goroutine supplies during one pass of the loop body.\<close>

record 'e iter_env =
  read_top :: "XRRCrtcGamma option"
  now_xft :: Time
  read_back :: "XRRCrtcGamma option"
  now_update :: Time
  wake :: "'e wakeup"

text \<open>What the goroutine does to the outside, in order.\<close>

datatype action =
    SetGamma XferFn
  | TimerReset Duration
  | ErrSend error
  | ErrClose
  | SessionClose

datatype ('s, 'e) step = Continue "('s, 'e) vars" | Break "('s, 'e) vars" | Panicked

text \<open>The first part of the loop body: read the lookup table and compare it with the
  one retained by the previous iteration.\<close>

definition check_update ::
  "options \<Rightarrow> Session \<Rightarrow> XRRCrtcGamma option \<Rightarrow> ('s, 'e) vars \<Rightarrow> ('s, 'e) step" where
  "check_update opts s gamma v =
     (case GetLookupTable s gamma of
        Panic \<Rightarrow> Panicked
      | Err e \<Rightarrow> Break (v\<lparr>var_err := Some e\<rparr>)
      | Ok newLut \<Rightarrow>
          (let v1 = v\<lparr>var_err := None\<rparr> in
           if LookupTable_IsZero (var_oldLut v1) then
             Continue (v1\<lparr>var_baseFn := LookupTable_XferFn newLut\<rparr>)
           else if \<not> LookupTable_Equals newLut (var_oldLut v1) then
             (if exitOnForeignUpdate opts then
                Break (v1\<lparr>var_err := Some ForeignCrtcUpdate, var_restoreOnExit := False\<rparr>)
              else Continue (v1\<lparr>var_baseFn := LookupTable_XferFn newLut\<rparr>))
           else Continue v1))"

text \<open>The two comparisons that turn \<open>sleepFor\<close> and \<open>extraTime\<close> into the argument of
  \<open>timer.Reset\<close>.\<close>

definition wait_for :: "Duration \<Rightarrow> Duration \<Rightarrow> Duration" where
  "wait_for sleepFor extraTime =
     (let sleepFor1 = (if sleepFor < extraTime then extraTime else sleepFor)
      in if sleepFor1 < 0 then 0 else sleepFor1)"

text \<open>The second part of the loop body: call the driver, program the CRTCs, read the
  table back, set the timer and wait.\<close>

definition update ::
  "options \<Rightarrow> ('s, 'e) XferFnAtTime \<Rightarrow> Time \<Rightarrow> Session \<Rightarrow> 'e iter_env \<Rightarrow> ('s, 'e) vars
     \<Rightarrow> action list \<times> ('s, 'e) step" where
  "update opts xft anchor s env v =
     (let r = xft (xft_state v) (Time_Sub (now_xft env) anchor) (var_baseFn v) (var_event v);
          curFn = fst (fst r);
          sleepFor = fst (snd (fst r));
          v1 = v\<lparr>var_exit := snd (snd (fst r)), xft_state := snd r\<rparr>
      in if \<not> SetGamma_returns s curFn then ([SetGamma curFn], Panicked)
         else
           (case GetLookupTable s (read_back env) of
              Panic \<Rightarrow> ([SetGamma curFn], Panicked)
            | Err e \<Rightarrow>
                ([SetGamma curFn], Break (v1\<lparr>var_oldLut := LookupTable_zero, var_err := Some e\<rparr>))
            | Ok lut \<Rightarrow>
                (let v2 = v1\<lparr>var_oldLut := lut, var_err := None\<rparr>;
                     thisUpdate = now_update env;
                     extraTime = dsub (updateInterval opts)
                                   (Time_Sub thisUpdate (var_lastUpdate v2));
                     v3 = v2\<lparr>var_lastUpdate := thisUpdate, var_event := None\<rparr>;
                     acts = [SetGamma curFn, TimerReset (wait_for sleepFor extraTime)]
                 in case wake env of
                      Cancelled \<Rightarrow> (acts, Break v3)
                    | Event ev \<Rightarrow> (acts, Continue (v3\<lparr>var_event := ev\<rparr>))
                    | TimerFired \<Rightarrow> (acts, Continue v3))))"

definition iteration ::
  "options \<Rightarrow> ('s, 'e) XferFnAtTime \<Rightarrow> Time \<Rightarrow> Session \<Rightarrow> 'e iter_env \<Rightarrow> ('s, 'e) vars
     \<Rightarrow> action list \<times> ('s, 'e) step" where
  "iteration opts xft anchor s env v =
     (case check_update opts s (read_top env) v of
        Panicked \<Rightarrow> ([], Panicked)
      | Break v' \<Rightarrow> ([], Break v')
      | Continue v' \<Rightarrow> update opts xft anchor s env v')"

text \<open>The loop, run against the list of what the world supplies to the successive
  iterations. The result is \<open>None\<close> when the list is used up and the loop has not
  ended; otherwise the actions of the loop and the variables at its end
  (\<open>None\<close> after a panic).\<close>

fun loop ::
  "options \<Rightarrow> ('s, 'e) XferFnAtTime \<Rightarrow> Time \<Rightarrow> Session \<Rightarrow> 'e iter_env list \<Rightarrow> ('s, 'e) vars
     \<Rightarrow> (action list \<times> ('s, 'e) vars option) option" where
  "loop opts xft anchor s [] v = (if var_exit v then Some ([], Some v) else None)"
| "loop opts xft anchor s (env # envs) v =
     (if var_exit v then Some ([], Some v)
      else
        (case iteration opts xft anchor s env v of
           (acts, Panicked) \<Rightarrow> Some (acts, None)
         | (acts, Break v') \<Rightarrow> Some (acts, Some v')
         | (acts, Continue v') \<Rightarrow>
             (case loop opts xft anchor s envs v' of
                None \<Rightarrow> None
              | Some (acts', r) \<Rightarrow> Some (acts @ acts', r))))"

text \<open>After the loop: the restoring write, the label \<open>bail\<close>, and the deferred
  \<open>s.Close()\<close>.\<close>

datatype outcome = Returned | Crashed

definition bail :: "error option \<Rightarrow> action list" where
  "bail e = (case e of None \<Rightarrow> [] | Some e' \<Rightarrow> [ErrSend e']) @ [ErrClose]"

definition finish :: "Session \<Rightarrow> ('s, 'e) vars \<Rightarrow> action list \<times> outcome" where
  "finish s v =
     (if var_restoreOnExit v then
        (if SetGamma_returns s (var_baseFn v) then
           (SetGamma (var_baseFn v) # bail (var_err v) @ [SessionClose], Returned)
         else ([SetGamma (var_baseFn v), SessionClose], Crashed))
      else (bail (var_err v) @ [SessionClose], Returned))"

text \<open>What the world supplies to a whole run of \<open>animate\<close>: the clock before and after
  \<open>NewSession\<close>, the answer to \<open>NewSession\<close>, and the iterations.\<close>

record 'e world =
  now_before_setup :: Time
  resources :: "XRRScreenResources option"
  now_after_setup :: Time
  iterations :: "'e iter_env list"

definition clock_anchor :: "options \<Rightarrow> 'e world \<Rightarrow> Time" where
  "clock_anchor opts w =
     (if startClockBeforeSetup opts
      then Time_Add (now_before_setup w) (dneg (initialClock opts))
      else Time_Add (now_after_setup w) (dneg (initialClock opts)))"

definition animate ::
  "options \<Rightarrow> ('s, 'e) XferFnAtTime \<Rightarrow> 's \<Rightarrow> 'e world \<Rightarrow> (action list \<times> outcome) option" where
  "animate opts xft xs w =
     (let anchor = clock_anchor opts w
      in case NewSession (resources w) of
           Inl e \<Rightarrow> Some (bail (Some e), Returned)
         | Inr s \<Rightarrow>
             (case loop opts xft anchor s (iterations w) (init_vars opts xs) of
                None \<Rightarrow> None
              | Some (acts, None) \<Rightarrow> Some (acts @ [SessionClose], Crashed)
              | Some (acts, Some v) \<Rightarrow>
                  (let f = finish s v in Some (acts @ fst f, snd f))))"

text \<open>The given iterations, when each of them ran to its end and the loop went on:
  their actions, and the variables at the top of the iteration that follows them.\<close>

fun iterations_run ::
  "options \<Rightarrow> ('s, 'e) XferFnAtTime \<Rightarrow> Time \<Rightarrow> Session \<Rightarrow> 'e iter_env list \<Rightarrow> ('s, 'e) vars
     \<Rightarrow> (action list \<times> ('s, 'e) vars) option" where
  "iterations_run opts xft anchor s [] v = Some ([], v)"
| "iterations_run opts xft anchor s (env # envs) v =
     (if var_exit v then None
      else
        (case iteration opts xft anchor s env v of
           (acts, Panicked) \<Rightarrow> None
         | (acts, Break v') \<Rightarrow> None
         | (acts, Continue v') \<Rightarrow>
             (case iterations_run opts xft anchor s envs v' of
                None \<Rightarrow> None
              | Some (acts', v'') \<Rightarrow> Some (acts @ acts', v''))))"

text \<open>The driver \<open>blink\<close> of the package's example: it keeps no state. Go's \<open>%\<close>
  truncates towards zero.\<close>

definition go_rem :: "int \<Rightarrow> int \<Rightarrow> int" where
  "go_rem a b = a - b * (sgn a * sgn b * (\<bar>a\<bar> div \<bar>b\<bar>))"

definition blink :: "(unit, 'e) XferFnAtTime" where
  "blink u t baseFn event =
     (let exit1 = (t > 5 * Second);
          exit2 = (if event \<noteq> None then True else exit1);
          fn = (if go_rem t (2 * Second) < Second then XferFn_Mul baseFn (DimFn 0.5) else baseFn);
          sleepFor = dsub Second (go_rem t Second)
      in ((fn, sleepFor, exit2), u))"

text \<open>A lookup table as \<open>GetLookupTable\<close> builds it from a CRTC of gamma size 2
  whose three vectors are \<open>0, 65535\<close>.\<close>

definition ramp2 :: LookupTable where
  "ramp2 = \<lparr>lut_t = (\<lambda>ch. [[0, 65535]])\<rparr>"

text \<open>Example inputs: a session with one CRTC of gamma size 2; the gamma vectors
  \<open>0, 65535\<close>, the vectors \<open>0, 32767\<close> that are read back after \<open>blink\<close> has dimmed
  them by half, and vectors \<open>0, 40000\<close> set by another process; a clock that starts
  at \<open>T0\<close>.\<close>

definition ramp_gamma :: XRRCrtcGamma where
  "ramp_gamma = (\<lambda>ch idx. if idx = 0 then 0 else 65535)"

definition dim_gamma :: XRRCrtcGamma where
  "dim_gamma = (\<lambda>ch idx. if idx = 0 then 0 else 32767)"

definition other_gamma :: XRRCrtcGamma where
  "other_gamma = (\<lambda>ch idx. if idx = 0 then 0 else 40000)"

definition dim2 :: LookupTable where
  "dim2 = \<lparr>lut_t = (\<lambda>ch. [[0, 32767]])\<rparr>"

definition other2 :: LookupTable where
  "other2 = \<lparr>lut_t = (\<lambda>ch. [[0, 40000]])\<rparr>"

definition session2 :: Session where
  "session2 = \<lparr>crtcs = [2]\<rparr>"

definition T0 :: Time where
  "T0 = 63900000000000000000"

definition env_first :: "unit iter_env" where
  "env_first = \<lparr>read_top = Some ramp_gamma, now_xft = T0 + 1000, read_back = Some dim_gamma,
                 now_update = T0 + 2000, wake = TimerFired\<rparr>"

definition env_cancelled :: "unit iter_env" where
  "env_cancelled = \<lparr>read_top = Some ramp_gamma, now_xft = T0 + 1000, read_back = Some dim_gamma,
                     now_update = T0 + 2000, wake = Cancelled\<rparr>"

definition env_read_back_fails :: "unit iter_env" where
  "env_read_back_fails = \<lparr>read_top = Some ramp_gamma, now_xft = T0 + 1000, read_back = None,
                           now_update = T0 + 2000, wake = TimerFired\<rparr>"

definition env_unchanged :: "unit iter_env" where
  "env_unchanged = \<lparr>read_top = Some dim_gamma, now_xft = T0 + 1000003000,
                     read_back = Some dim_gamma, now_update = T0 + 1000004000, wake = TimerFired\<rparr>"

definition env_foreign :: "unit iter_env" where
  "env_foreign = \<lparr>read_top = Some other_gamma, now_xft = T0 + 1000003000,
                   read_back = Some dim_gamma, now_update = T0 + 1000004000, wake = TimerFired\<rparr>"

definition example_world :: "unit iter_env list \<Rightarrow> unit world" where
  "example_world envs = \<lparr>now_before_setup = T0 - 300000000, resources = Some [(2, True)],
                          now_after_setup = T0, iterations = envs\<rparr>"

text \<open>The variables after the iteration \<open>env_first\<close>, from the initial ones.\<close>

definition vars_first :: "options \<Rightarrow> (unit, unit) vars" where
  "vars_first opts =
     \<lparr>var_exit = False, var_err = None, var_lastUpdate = T0 + 2000, var_oldLut = dim2,
      var_baseFn = LookupTable_XferFn ramp2, var_event = None,
      var_restoreOnExit = restoreOnExit opts, xft_state = ()\<rparr>"

text \<open>\<open>math.Pow\<close> for an exponent that is not negative, and \<open>math.Mod\<close>. A negative
  base with an exponent that is not an integer gives NaN.\<close>

definition go_Pow :: "float64 \<Rightarrow> float64 \<Rightarrow> float64 option" where
  "go_Pow x y =
     (if y = 0 then Some 1
      else if x = 0 then Some 0
      else if x > 0 then Some (x powr y)
      else if y = of_int \<lfloor>y\<rfloor> then Some (x ^ nat \<lfloor>y\<rfloor>)
      else None)"

definition PowerFn :: "float64 \<Rightarrow> XferFn" where
  "PowerFn exponent = (\<lambda>ch inp. go_Pow inp (max exponent 0))"

definition float_Mod :: "float64 \<Rightarrow> float64 \<Rightarrow> float64" where
  "float_Mod x y = x - y * of_int (float_trunc (x / y))"

text \<open>The driver \<open>pulse\<close> of the demo command; the variable \<open>exp\<close> keeps its zero
  value when no case of the switch matches.\<close>

definition pulse :: "(unit, 'e) XferFnAtTime" where
  "pulse u t baseFn event =
     (let m = Modf (float64_of_Duration t / float64_of_Duration Second * 2);
          absStage = fst m;
          position = snd m;
          stage = float_Mod absStage 4;
          from = (\<lambda>start endv. start * (1 - position) + endv * position);
          exponent = (if stage = 0 then from 1 0.25
                 else if stage = 1 then from 0.25 1
                 else if stage = 2 then from 1 4
                 else if stage = 3 then from 4 1
                 else 0)
      in ((PowerFn exponent, 0, t \<ge> 12 * Second), u))"

text \<open>Two iterations 5ms apart, for a driver that asks for no sleep.\<close>

definition env_tick1 :: "unit iter_env" where
  "env_tick1 = \<lparr>read_top = Some ramp_gamma, now_xft = T0 + 1000, read_back = Some ramp_gamma,
                 now_update = T0 + 2000, wake = TimerFired\<rparr>"

definition env_tick2 :: "unit iter_env" where
  "env_tick2 = \<lparr>read_top = Some ramp_gamma, now_xft = T0 + 5001000,
                 read_back = Some ramp_gamma, now_update = T0 + 5002000, wake = TimerFired\<rparr>"

text \<open>The variables after the iteration \<open>env_tick1\<close> of the driver \<open>pulse\<close>.\<close>

definition vars_tick1 :: "(unit, unit) vars" where
  "vars_tick1 =
     \<lparr>var_exit = False, var_err = None, var_lastUpdate = T0 + 2000, var_oldLut = ramp2,
      var_baseFn = LookupTable_XferFn ramp2, var_event = None,
      var_restoreOnExit = True, xft_state = ()\<rparr>"

text \<open>The variables at the end of the loop in three runs of \<open>blink\<close>: cancelled during
  the first wait, failing read-back in the first iteration, foreign update seen by the
  second iteration.\<close>

definition vars_cancelled :: "(unit, unit) vars" where
  "vars_cancelled =
     \<lparr>var_exit = False, var_err = None, var_lastUpdate = T0 + 2000, var_oldLut = dim2,
      var_baseFn = LookupTable_XferFn ramp2, var_event = None,
      var_restoreOnExit = True, xft_state = ()\<rparr>"

definition vars_read_back_fails :: "(unit, unit) vars" where
  "vars_read_back_fails =
     \<lparr>var_exit = False, var_err = Some ErrCrtcGamma, var_lastUpdate = 0,
      var_oldLut = LookupTable_zero, var_baseFn = LookupTable_XferFn ramp2, var_event = None,
      var_restoreOnExit = True, xft_state = ()\<rparr>"

definition vars_foreign :: "(unit, unit) vars" where
  "vars_foreign =
     \<lparr>var_exit = False, var_err = Some ForeignCrtcUpdate, var_lastUpdate = T0 + 2000,
      var_oldLut = dim2, var_baseFn = LookupTable_XferFn ramp2, var_event = None,
      var_restoreOnExit = False, xft_state = ()\<rparr>"

text \<open>The operations on the error channel among the actions.\<close>

fun is_chan_op :: "action \<Rightarrow> bool" where
  "is_chan_op (ErrSend e) = True"
| "is_chan_op ErrClose = True"
| "is_chan_op (SetGamma fn) = False"
| "is_chan_op (TimerReset d) = False"
| "is_chan_op SessionClose = False"

section \<open>Transfer functions: Chain and Mul\<close>

text \<open>
  Claim C10. For all transfer functions \<open>f\<close> and \<open>g\<close>, every channel and every input:
  \<open>chain(f, g)(ch, x) = g(ch, f(ch, x))\<close> and
  \<open>multiply(f, g)(ch, x) = f(ch, x) \<cdot> g(ch, x)\<close>. Where \<open>f(ch, x)\<close> returns \<open>y\<close>, the
  chain is the call \<open>g(ch, y)\<close>; where both return, the product is the product of the
  two values; a call that does not return makes the combined call not return.
\<close>

theorem Chain_Mul_pointwise:
  "(f ch x = Some y \<longrightarrow> XferFn_Chain f g ch x = g ch y) \<and>
   (f ch x = None \<longrightarrow> XferFn_Chain f g ch x = None) \<and>
   (f ch x = Some u \<and> g ch x = Some v \<longrightarrow> XferFn_Mul f g ch x = Some (u * v)) \<and>
   (f ch x = None \<or> g ch x = None \<longrightarrow> XferFn_Mul f g ch x = None)"
  by (auto simp: XferFn_Chain_def XferFn_Mul_def split: option.splits)

theorem Chain_Mul_pointwise_witness:
  "DimFn (1/2) Red (4/5) = Some (2/5) \<and>
   (\<lambda>ch x. Some (1 - x)) Red (4/5 :: real) = Some (1/5 :: real) \<and>
   XferFn_Chain (DimFn (1/2)) (\<lambda>ch x. Some (1 - x)) Red (4/5) = Some (3/5) \<and>
   XferFn_Mul (DimFn (1/2)) (\<lambda>ch x. Some (1 - x)) Red (4/5) = Some (2/25) \<and>
   nil_XferFn Red (4/5) = None \<and>
   XferFn_Chain nil_XferFn (DimFn (1/2)) Red (4/5) = None \<and>
   XferFn_Mul (DimFn (1/2)) nil_XferFn Red (4/5) = None"
proof -
  have a: "DimFn (1/2) Red (4/5) = Some (2/5)"
    "(\<lambda>ch x. Some (1 - x)) Red (4/5 :: real) = Some (1/5 :: real)"
    "nil_XferFn Red (4/5) = None"
    by (simp_all add: DimFn_def nil_XferFn_def)
  from Chain_Mul_pointwise [of "DimFn (1/2)" Red "4/5" "2/5" "\<lambda>ch x. Some (1 - x)" "2/5" "1/5"] a
  have b: "XferFn_Chain (DimFn (1/2)) (\<lambda>ch x. Some (1 - x)) Red (4/5) = Some (3/5)"
    "XferFn_Mul (DimFn (1/2)) (\<lambda>ch x. Some (1 - x)) Red (4/5) = Some (2/25)"
    by simp_all
  from Chain_Mul_pointwise [of nil_XferFn Red "4/5" _ "DimFn (1/2)"] a
  have c: "XferFn_Chain nil_XferFn (DimFn (1/2)) Red (4/5) = None"
    by simp
  from Chain_Mul_pointwise [of "DimFn (1/2)" Red "4/5" _ nil_XferFn] a
  have d: "XferFn_Mul (DimFn (1/2)) nil_XferFn Red (4/5) = None"
    by simp
  show ?thesis
    by (intro conjI a b c d)
qed

section \<open>Lookup tables: Equals\<close>

lemma equals_idx_iff:
  "equals_idx a2 b2 idx \<longleftrightarrow> (\<forall>j. idx \<le> j \<and> j < length a2 \<longrightarrow> a2 ! j = b2 ! j)"
proof (induction a2 b2 idx rule: equals_idx.induct)
  case (1 a2 b2 idx)
  show ?case
  proof (cases "idx < length a2")
    case False
    then show ?thesis by (subst equals_idx.simps) auto
  next
    case True
    note lt = this
    show ?thesis
    proof (cases "a2 ! idx = b2 ! idx")
      case False
      with lt show ?thesis by (subst equals_idx.simps) auto
    next
      case True
      have "equals_idx a2 b2 idx = equals_idx a2 b2 (Suc idx)"
        using lt True by (subst equals_idx.simps) simp
      also have "\<dots> \<longleftrightarrow> (\<forall>j. Suc idx \<le> j \<and> j < length a2 \<longrightarrow> a2 ! j = b2 ! j)"
        using "1.IH" lt True by simp
      also have "\<dots> \<longleftrightarrow> (\<forall>j. idx \<le> j \<and> j < length a2 \<longrightarrow> a2 ! j = b2 ! j)"
        using True by (metis Suc_leI le_neq_implies_less Suc_leD)
      finally show ?thesis .
    qed
  qed
qed

lemma samples_equal_iff:
  "length a2 = length b2 \<and> equals_idx a2 b2 0 \<longleftrightarrow> a2 = b2"
proof
  assume h: "length a2 = length b2 \<and> equals_idx a2 b2 0"
  then have "\<forall>j. j < length a2 \<longrightarrow> a2 ! j = b2 ! j"
    by (simp add: equals_idx_iff)
  with h show "a2 = b2" by (simp add: nth_equalityI)
next
  assume "a2 = b2"
  then show "length a2 = length b2 \<and> equals_idx a2 b2 0"
    by (simp add: equals_idx_iff)
qed

lemma equals_crtc_iff:
  "equals_crtc a1 b1 crtc \<longleftrightarrow> (\<forall>k. crtc \<le> k \<and> k < length a1 \<longrightarrow> a1 ! k = b1 ! k)"
proof (induction a1 b1 crtc rule: equals_crtc.induct)
  case (1 a1 b1 crtc)
  show ?case
  proof (cases "crtc < length a1")
    case False
    then show ?thesis by (subst equals_crtc.simps) auto
  next
    case True
    note lt = this
    show ?thesis
    proof (cases "a1 ! crtc = b1 ! crtc")
      case False
      then have "\<not> (length (a1 ! crtc) = length (b1 ! crtc) \<and>
                   equals_idx (a1 ! crtc) (b1 ! crtc) 0)"
        by (simp add: samples_equal_iff)
      then have "\<not> equals_crtc a1 b1 crtc"
        using lt by (subst equals_crtc.simps) (auto simp: Let_def)
      with lt False show ?thesis by auto
    next
      case True
      then have ok: "length (a1 ! crtc) = length (b1 ! crtc)"
        "equals_idx (a1 ! crtc) (b1 ! crtc) 0"
        using samples_equal_iff [of "a1 ! crtc" "b1 ! crtc"] by simp_all
      have "equals_crtc a1 b1 crtc = equals_crtc a1 b1 (Suc crtc)"
        using lt ok by (subst equals_crtc.simps) (simp add: Let_def)
      also have "\<dots> \<longleftrightarrow> (\<forall>k. Suc crtc \<le> k \<and> k < length a1 \<longrightarrow> a1 ! k = b1 ! k)"
        using "1.IH" [OF lt refl refl] ok by simp
      also have "\<dots> \<longleftrightarrow> (\<forall>k. crtc \<le> k \<and> k < length a1 \<longrightarrow> a1 ! k = b1 ! k)"
        using True by (metis Suc_leI le_neq_implies_less Suc_leD)
      finally show ?thesis .
    qed
  qed
qed

lemma controllers_equal_iff:
  "length a1 = length b1 \<and> equals_crtc a1 b1 0 \<longleftrightarrow> a1 = b1"
proof
  assume h: "length a1 = length b1 \<and> equals_crtc a1 b1 0"
  then have "\<forall>k. k < length a1 \<longrightarrow> a1 ! k = b1 ! k"
    by (simp add: equals_crtc_iff)
  with h show "a1 = b1" by (simp add: nth_equalityI)
next
  assume "a1 = b1"
  then show "length a1 = length b1 \<and> equals_crtc a1 b1 0"
    by (simp add: equals_crtc_iff)
qed

lemma equals_ch_iff:
  "equals_ch lt ot chs \<longleftrightarrow> (\<forall>ch \<in> set chs. lut_t lt ch = lut_t ot ch)"
proof (induction chs)
  case Nil
  show ?case by simp
next
  case (Cons ch chs)
  have "equals_ch lt ot (ch # chs) \<longleftrightarrow>
        (length (lut_t lt ch) = length (lut_t ot ch) \<and>
         equals_crtc (lut_t lt ch) (lut_t ot ch) 0)
        \<and> equals_ch lt ot chs"
    by (auto simp: Let_def)
  then show ?case
    using Cons.IH by (simp only: controllers_equal_iff) auto
qed

lemma all_channels: "(\<forall>ch \<in> set [Red, Green, Blue]. P ch) \<longleftrightarrow> (\<forall>ch. P ch)"
proof
  assume h: "\<forall>ch \<in> set [Red, Green, Blue]. P ch"
  show "\<forall>ch. P ch"
  proof
    fix ch show "P ch" using h by (cases ch) simp_all
  qed
qed simp

lemma Equals_iff_eq: "LookupTable_Equals lt ot \<longleftrightarrow> lut_t lt = lut_t ot"
  unfolding LookupTable_Equals_def equals_ch_iff all_channels by auto

text \<open>
  Claim C9. Snapshot equality returns true if and only if the two snapshots have the
  same topology and every channel, controller and sample value matches, that is, if and
  only if the two tables are the same value. It is reflexive, and replacing any single
  sample by a different value makes it return false, whichever side the changed table
  is on.
\<close>

theorem LookupTable_Equals_exact:
  "(LookupTable_Equals a b \<longleftrightarrow> a = b) \<and>
   LookupTable_Equals a a \<and>
   (\<forall>ch crtc idx v.
      crtc < length (lut_t a ch) \<and> idx < length (lut_t a ch ! crtc) \<and>
      v \<noteq> lut_t a ch ! crtc ! idx \<longrightarrow>
      \<not> LookupTable_Equals a
          (a\<lparr>lut_t := (lut_t a)(ch := (lut_t a ch)[crtc := (lut_t a ch ! crtc)[idx := v]])\<rparr>) \<and>
      \<not> LookupTable_Equals
          (a\<lparr>lut_t := (lut_t a)(ch := (lut_t a ch)[crtc := (lut_t a ch ! crtc)[idx := v]])\<rparr>) a)"
proof (intro conjI allI impI)
  show "LookupTable_Equals a b \<longleftrightarrow> a = b"
    by (cases a, cases b) (simp add: Equals_iff_eq)
  show "LookupTable_Equals a a"
    by (simp add: Equals_iff_eq)
next
  fix ch crtc idx v
  assume h: "crtc < length (lut_t a ch) \<and> idx < length (lut_t a ch ! crtc) \<and>
             v \<noteq> lut_t a ch ! crtc ! idx"
  let ?t = "(lut_t a)(ch := (lut_t a ch)[crtc := (lut_t a ch ! crtc)[idx := v]])"
  have "?t ch ! crtc ! idx = v" using h by simp
  with h have ne: "?t \<noteq> lut_t a" by metis
  show "\<not> LookupTable_Equals a (a\<lparr>lut_t := ?t\<rparr>)"
    using ne by (simp add: Equals_iff_eq)
  show "\<not> LookupTable_Equals (a\<lparr>lut_t := ?t\<rparr>) a"
    using ne by (simp add: Equals_iff_eq)
qed

theorem LookupTable_Equals_exact_witness:
  "LookupTable_Equals ramp2 ramp2 \<and>
   (0 < length (lut_t ramp2 Green) \<and> 1 < length (lut_t ramp2 Green ! 0) \<and>
    (65534 :: ushort) \<noteq> lut_t ramp2 Green ! 0 ! 1) \<and>
   \<not> LookupTable_Equals ramp2 (ramp2\<lparr>lut_t := (lut_t ramp2)(Green := [[0, 65534]])\<rparr>)"
proof -
  have h: "0 < length (lut_t ramp2 Green) \<and> 1 < length (lut_t ramp2 Green ! 0) \<and>
           (65534 :: ushort) \<noteq> lut_t ramp2 Green ! 0 ! 1"
    by (simp add: ramp2_def)
  have upd: "(lut_t ramp2 Green)[0 := (lut_t ramp2 Green ! 0)[1 := 65534]] = [[0, 65534]]"
    by (simp add: ramp2_def)
  from LookupTable_Equals_exact [of ramp2 ramp2]
  have r: "LookupTable_Equals ramp2 ramp2" and
    c: "\<forall>ch crtc idx v.
      crtc < length (lut_t ramp2 ch) \<and> idx < length (lut_t ramp2 ch ! crtc) \<and>
      v \<noteq> lut_t ramp2 ch ! crtc ! idx \<longrightarrow>
      \<not> LookupTable_Equals ramp2
          (ramp2\<lparr>lut_t := (lut_t ramp2)
             (ch := (lut_t ramp2 ch)[crtc := (lut_t ramp2 ch ! crtc)[idx := v]])\<rparr>) \<and>
      \<not> LookupTable_Equals
          (ramp2\<lparr>lut_t := (lut_t ramp2)
             (ch := (lut_t ramp2 ch)[crtc := (lut_t ramp2 ch ! crtc)[idx := v]])\<rparr>) ramp2"
    by blast+
  from c [rule_format, of 0 Green 1 65534] h upd
  have "\<not> LookupTable_Equals ramp2 (ramp2\<lparr>lut_t := (lut_t ramp2)(Green := [[0, 65534]])\<rparr>)"
    by simp
  with r h show ?thesis by blast
qed

section \<open>Lookup tables: the derived transfer function\<close>

lemma xfer_loop_end: "length t \<le> crtc \<Longrightarrow> xfer_loop t inp crtc acc = Some acc"
  by (subst xfer_loop.simps) simp

lemma xfer_loop_single:
  assumes "0 \<le> x"
  shows "xfer_loop [lut] x 0 acc =
           (if \<lfloor>x * real (length lut)\<rfloor> < int (length lut)
            then Some (acc + real (unat (lut ! nat \<lfloor>x * real (length lut)\<rfloor>))) else None)"
proof -
  have nn: "0 \<le> x * real (length lut)" using assms by simp
  have fl: "0 \<le> \<lfloor>x * real (length lut)\<rfloor>" using nn by simp
  show ?thesis
    using nn fl
    by (subst xfer_loop.simps)
       (simp add: Modf_def Let_def float_trunc_def index_def float64_of_ushort_def xfer_loop_end)
qed

text \<open>With a single controller, which is all that \<open>GetLookupTable\<close> ever stores, the
  interpolating branch is never taken: the function returns the sample at the index
  \<open>\<lfloor>x \<cdot> len\<rfloor>\<close>, and panics when that index is \<open>len\<close>.\<close>

lemma LookupTable_XferFn_single:
  assumes "lut_t lt ch = [lut]" "0 \<le> x"
  shows "LookupTable_XferFn lt ch x =
           (if \<lfloor>x * real (length lut)\<rfloor> < int (length lut)
            then Some (real (unat (lut ! nat \<lfloor>x * real (length lut)\<rfloor>)) / 65535) else None)"
  using assms by (simp add: LookupTable_XferFn_def xfer_loop_single)

text \<open>
  Claim C8. Converting a snapshot with at least one sample per channel into a transfer
  function should give, for every input in \<open>[0, 1]\<close>, a defined value equal to the
  linear interpolation between the two adjacent samples. On the table \<open>ramp2\<close>
  (samples \<open>0, 65535\<close>) the interpolation at \<open>1/4\<close> is \<open>1/2\<close> and the value at \<open>1\<close> is
  \<open>1\<close>; the function of the source returns \<open>0\<close> at \<open>1/4\<close> and panics at \<open>1\<close>.
\<close>

theorem LookupTable_XferFn_ramp2:
  "LookupTable_XferFn ramp2 Red (1/4) = Some 0 \<and> LookupTable_XferFn ramp2 Red 1 = None"
  by (simp add: LookupTable_XferFn_single [where lut = "[0, 65535]"] ramp2_def)

section \<open>Durations and the alert driver\<close>

lemma wrap64_id: "- (2 ^ 63) \<le> x \<Longrightarrow> x < 2 ^ 63 \<Longrightarrow> wrap64 x = x"
  by (simp add: wrap64_def)

lemma wrap64_range: "- (2 ^ 63) \<le> wrap64 x \<and> wrap64 x < 2 ^ 63"
proof -
  have "0 \<le> (x + 2 ^ 63) mod 2 ^ 64" "(x + 2 ^ 63) mod 2 ^ 64 < 2 ^ 64"
    by simp_all
  then show ?thesis by (simp add: wrap64_def)
qed

lemma dsub_id: "- (2 ^ 63) \<le> a - b \<Longrightarrow> a - b < 2 ^ 63 \<Longrightarrow> dsub a b = a - b"
  by (simp add: dsub_def wrap64_id)

lemma effects_loop_Nil: "effects_loop t idx [] es sleepFor = ([], es, sleepFor)"
  by (subst effects_loop.simps) simp

text \<open>
  Claim C5. If an Exit command arrives while the stage is entering, with stage-elapsed
  time \<open>e = t - stageStart \<ge> 0\<close>, the stage becomes exiting, the new \<open>stageStart\<close> is
  \<open>t - (250ms - e)\<close>, and the strength of this first exiting call is \<open>e / 250ms\<close>, with
  no exit signalled; \<open>e / 250ms\<close> is also the strength that the entering stage has at
  that moment (the strength of the same call without the command, for \<open>e < 250ms\<close>).
  Exit at \<open>e = 100ms\<close> gives strength \<open>0.4\<close>.
\<close>

theorem Exit_while_entering:
  assumes "stage v = enter" and "0 \<le> dsub t (stageStart v)"
  shows "stage (snd (Xft_call v t baseFn (Some Exit))) = exit \<and>
         stageStart (snd (Xft_call v t baseFn (Some Exit))) =
           dsub t (dsub enterExitDuration (dsub t (stageStart v))) \<and>
         strength (snd (Xft_call v t baseFn (Some Exit))) =
           float64_of_Duration (dsub t (stageStart v)) / float64_of_Duration enterExitDuration \<and>
         \<not> snd (snd (fst (Xft_call v t baseFn (Some Exit)))) \<and>
         (dsub t (stageStart v) < enterExitDuration \<longrightarrow>
            strength (snd (Xft_call v t baseFn None)) =
              float64_of_Duration (dsub t (stageStart v)) / float64_of_Duration enterExitDuration)"
proof -
  define e where "e = dsub t (stageStart v)"
  have e0: "0 \<le> e" using assms(2) by (simp add: e_def)
  have eub: "e < 2 ^ 63"
    using wrap64_range [of "t - stageStart v"] by (simp add: e_def dsub_def)
  have d: "dsub enterExitDuration e = enterExitDuration - e"
    using e0 eub by (intro dsub_id) (simp_all add: enterExitDuration_def Millisecond_def)
  have s: "1 - float64_of_Duration (enterExitDuration - e) / float64_of_Duration enterExitDuration
           = float64_of_Duration e / float64_of_Duration enterExitDuration"
    by (simp add: float64_of_Duration_def enterExitDuration_def Millisecond_def field_simps)
  have nn: "\<not> float64_of_Duration e / float64_of_Duration enterExitDuration < 0"
    using e0 by (simp add: float64_of_Duration_def enterExitDuration_def Millisecond_def)
  have sw: "switch_cmd t Exit (v\<lparr>sinceStage := e\<rparr>) =
            v\<lparr>sinceStage := enterExitDuration - e, stage := exit,
              stageStart := dsub t (enterExitDuration - e)\<rparr>"
    using assms(1) d by (simp add: switch_cmd_def Let_def)
  have st: "switch_stage t (switch_cmd t Exit (v\<lparr>sinceStage := e\<rparr>)) =
            (v\<lparr>sinceStage := enterExitDuration - e, stage := exit,
               stageStart := dsub t (enterExitDuration - e),
               strength := float64_of_Duration e / float64_of_Duration enterExitDuration\<rparr>,
             0, False)"
    unfolding sw using nn by (simp add: switch_stage_def Let_def s)
  have exiting: "stage (snd (Xft_call v t baseFn (Some Exit))) = exit \<and>
         stageStart (snd (Xft_call v t baseFn (Some Exit))) =
           dsub t (dsub enterExitDuration e) \<and>
         strength (snd (Xft_call v t baseFn (Some Exit))) =
           float64_of_Duration e / float64_of_Duration enterExitDuration \<and>
         \<not> snd (snd (fst (Xft_call v t baseFn (Some Exit))))"
    using st d by (simp add: Xft_call_def Let_def e_def [symmetric])
  have entering: "strength (snd (Xft_call v t baseFn None)) =
              float64_of_Duration e / float64_of_Duration enterExitDuration"
    if lt: "e < enterExitDuration"
  proof -
    have lt1: "\<not> 1 \<le> float64_of_Duration e / float64_of_Duration enterExitDuration"
      using lt by (simp add: float64_of_Duration_def enterExitDuration_def Millisecond_def)
    have "switch_stage t (v\<lparr>sinceStage := e\<rparr>) =
            (v\<lparr>sinceStage := e,
               strength := float64_of_Duration e / float64_of_Duration enterExitDuration\<rparr>,
             0, False)"
      using assms(1) lt1 by (simp add: switch_stage_def Let_def)
    then show ?thesis
      by (simp add: Xft_call_def Let_def e_def [symmetric] switch_cmd_def)
  qed
  from exiting entering show ?thesis
    unfolding e_def by blast
qed

theorem Exit_while_entering_witness:
  "stage Xft_init = enter \<and> 0 \<le> dsub (100 * Millisecond) (stageStart Xft_init) \<and>
   dsub (100 * Millisecond) (stageStart Xft_init) < enterExitDuration \<and>
   stage (snd (Xft_call Xft_init (100 * Millisecond) (DimFn 1) (Some Exit))) = exit \<and>
   stageStart (snd (Xft_call Xft_init (100 * Millisecond) (DimFn 1) (Some Exit))) =
     - (50 * Millisecond) \<and>
   strength (snd (Xft_call Xft_init (100 * Millisecond) (DimFn 1) (Some Exit))) = 2 / 5 \<and>
   strength (snd (Xft_call Xft_init (100 * Millisecond) (DimFn 1) None)) = 2 / 5"
proof -
  have a: "stage Xft_init = enter" by (simp add: Xft_init_def)
  have b: "dsub (100 * Millisecond) (stageStart Xft_init) = 100 * Millisecond"
    by (simp add: Xft_init_def dsub_id Millisecond_def)
  have c: "dsub (100 * Millisecond) (dsub enterExitDuration (100 * Millisecond)) =
           - (50 * Millisecond)"
    by (simp add: dsub_id Millisecond_def enterExitDuration_def)
  have d: "float64_of_Duration (100 * Millisecond) / float64_of_Duration enterExitDuration = 2 / 5"
    by (simp add: float64_of_Duration_def Millisecond_def enterExitDuration_def)
  have b0: "0 \<le> dsub (100 * Millisecond) (stageStart Xft_init)"
    unfolding b by (simp add: Millisecond_def)
  have b1: "dsub (100 * Millisecond) (stageStart Xft_init) < enterExitDuration"
    unfolding b by (simp add: Millisecond_def enterExitDuration_def)
  from Exit_while_entering [OF a b0, of "DimFn 1"] a b0 b1 show ?thesis
    unfolding b c d by simp
qed

text \<open>
  Claim C6 as stated: a warble effect applied at exactly 625ms after its start returns
  \<open>done = true\<close> and its input. The source tests \<open>since > duration\<close>, so at exactly
  625ms the effect is not done.
\<close>

theorem warble_at_625ms_counterexample:
  "warble (625 * Millisecond) (1/2) = (1/2, False)"
  by (simp add: warble_def Let_def Millisecond_def float64_of_Duration_def Modf_def
      float_trunc_def)

text \<open>
  Claim C6, amended. A warble effect applied at exactly 625ms after its start returns
  \<open>done = false\<close>; applied at any time later than 625ms it returns \<open>done = true\<close> and
  an output equal to its input. (At exactly 625ms the output is computed by the else
  branch, as \<open>1 - (1 - in) \<cdot> 1\<close>; nothing is stated about it.)
\<close>

theorem warble_at_and_after_625ms:
  "\<not> snd (warble (625 * Millisecond) x) \<and>
   (\<forall>since. since > 625 * Millisecond \<longrightarrow> warble since x = (x, True))"
  by (simp add: warble_def Let_def Millisecond_def)

theorem warble_at_and_after_625ms_witness:
  "626 * Millisecond > 625 * Millisecond \<and> warble (626 * Millisecond) (1/2) = (1/2, True) \<and>
   \<not> snd (warble (625 * Millisecond) (1/2))"
proof -
  have h: "626 * Millisecond > 625 * Millisecond" by (simp add: Millisecond_def)
  from warble_at_and_after_625ms [of "1/2"] h show ?thesis by blast
qed

lemma Xft_first_call:
  "snd (Xft_call Xft_init 0 f None) = Xft_init\<lparr>rCmp := 1 / 5\<rparr>"
proof -
  have a: "Xft_init\<lparr>sinceStage := dsub 0 (stageStart Xft_init)\<rparr> = Xft_init"
    by (simp add: Xft_init_def dsub_id)
  have b: "switch_cmd 0 noCmd Xft_init = Xft_init"
    by (simp add: switch_cmd_def)
  have s: "switch_stage 0 Xft_init = (Xft_init, 0, False)"
    by (simp add: switch_stage_def Xft_init_def Let_def float64_of_Duration_def)
  have e: "effects Xft_init = []" by (simp add: Xft_init_def)
  have "snd (Xft_call Xft_init 0 f None) =
        Xft_init\<lparr>effects := [], effectStrength := 0, rCmp := 1 / 5, oCmp := 0\<rparr>"
    by (simp add: Xft_call_def Let_def a b s e effects_loop_Nil)
  then show ?thesis by (simp add: Xft_init_def)
qed

text \<open>
  Claim C7. Every transfer function returned by a call of the driver with \<open>t \<ge> 0\<close> and
  a baseline that maps \<open>[0, 1]\<close> into \<open>[0, 1]\<close> should map \<open>[0, 1]\<close> into \<open>[0, 1]\<close>. A
  first call at \<open>t = 0\<close> without event, followed by a call at \<open>t = 2s\<close> with the Exit
  command and the identity as baseline, returns a function whose Red output at input
  \<open>0\<close> is \<open>1.6\<close>: the exiting stage starts with strength \<open>8\<close>, which is bounded below
  by the source but not above.
\<close>

theorem Xft_output_out_of_range:
  "fst (fst (Xft_call (snd (Xft_call Xft_init 0 (\<lambda>ch x. Some x) None))
                (2 * Second) (\<lambda>ch x. Some x) (Some Exit))) Red 0 = Some (8 / 5)"
proof -
  define v1 where "v1 = Xft_init\<lparr>rCmp := 1 / 5\<rparr>"
  have f: "stage v1 = enter" "stageStart v1 = 0" "effects v1 = []"
    by (simp_all add: v1_def Xft_init_def)
  have d1: "dsub (2 * Second) 0 = 2000000000"
    by (simp add: dsub_id Second_def)
  have d2: "dsub enterExitDuration 2000000000 = - 1750000000"
    by (simp add: dsub_id enterExitDuration_def Millisecond_def)
  define v2 where "v2 = switch_cmd (2 * Second) Exit (v1\<lparr>sinceStage := 2000000000\<rparr>)"
  have v2: "stage v2 = exit" "sinceStage v2 = - 1750000000" "effects v2 = []"
    by (simp_all add: v2_def switch_cmd_def f Let_def d2)
  define v3 where "v3 = fst (switch_stage (2 * Second) v2)"
  have v3: "strength v3 = 8" "effects v3 = []"
    by (simp_all add: v3_def switch_stage_def v2 Let_def float64_of_Duration_def
        enterExitDuration_def Millisecond_def)
  have "fst (fst (Xft_call v1 (2 * Second) (\<lambda>ch x. Some x) (Some Exit))) Red 0 = Some (8 / 5)"
    unfolding Xft_call_def Let_def f d1
    by (simp add: v2_def [symmetric] v3_def [symmetric] v3 effects_loop_Nil Xft_fn_def)
  then show ?thesis by (simp add: Xft_first_call v1_def)
qed

text \<open>The returned function stays in range as long as the stage strength and the two
  compensations are in \<open>[0, 1]\<close>; the exiting stage above breaks the first condition.\<close>

lemma convex_in_unit:
  fixes s a b :: real
  assumes "0 \<le> s" "s \<le> 1" "0 \<le> a" "a \<le> 1" "0 \<le> b" "b \<le> 1"
  shows "0 \<le> s * a + (1 - s) * b \<and> s * a + (1 - s) * b \<le> 1"
proof
  show "0 \<le> s * a + (1 - s) * b" using assms by simp
  have "s * a \<le> s * 1" using assms by (intro mult_left_mono) simp_all
  moreover have "(1 - s) * b \<le> (1 - s) * 1" using assms by (intro mult_left_mono) simp_all
  ultimately show "s * a + (1 - s) * b \<le> 1" by simp
qed

lemma Xft_fn_in_range:
  assumes "0 \<le> strength v" "strength v \<le> 1" "0 \<le> rCmp v" "rCmp v \<le> 1"
    and "0 \<le> oCmp v" "oCmp v \<le> 1"
    and "baseFn ch x = Some b" "0 \<le> b" "b \<le> 1"
  shows "\<exists>y. Xft_fn v baseFn ch x = Some y \<and> 0 \<le> y \<and> y \<le> 1"
proof -
  define fx where "fx = (case ch of Red \<Rightarrow> b * (1 - rCmp v) + rCmp v
                          | Green \<Rightarrow> b * (1 - oCmp v) | Blue \<Rightarrow> b * (1 - oCmp v))"
  have r: "0 \<le> b * (1 - rCmp v) + rCmp v \<and> b * (1 - rCmp v) + rCmp v \<le> 1"
    using convex_in_unit [of "rCmp v" 1 b] assms by (simp add: algebra_simps)
  have o: "0 \<le> b * (1 - oCmp v) \<and> b * (1 - oCmp v) \<le> 1"
    using convex_in_unit [of "oCmp v" 0 b] assms by (simp add: algebra_simps)
  have "0 \<le> fx \<and> fx \<le> 1"
    using r o by (cases ch) (simp_all add: fx_def)
  then have "0 \<le> strength v * fx + (1 - strength v) * b \<and>
             strength v * fx + (1 - strength v) * b \<le> 1"
    using convex_in_unit [of "strength v" fx b] assms by simp
  moreover have "Xft_fn v baseFn ch x = Some (strength v * fx + (1 - strength v) * b)"
    using assms(7) by (simp add: Xft_fn_def fx_def Let_def)
  ultimately show ?thesis by simp
qed

section \<open>The animation loop\<close>

lemma GetLookupTable_Ok_not_zero:
  "GetLookupTable s g = Ok lt \<Longrightarrow> \<not> LookupTable_IsZero lt"
  by (auto simp: GetLookupTable_def LookupTable_IsZero_def split: list.splits option.splits)

lemma check_update_compared:
  assumes "GetLookupTable s g = Ok newLut" and "\<not> LookupTable_IsZero (var_oldLut v)"
  shows "check_update opts s g v =
           (if \<not> LookupTable_Equals newLut (var_oldLut v) then
              (if exitOnForeignUpdate opts then
                 Break (v\<lparr>var_err := Some ForeignCrtcUpdate, var_restoreOnExit := False\<rparr>)
               else Continue (v\<lparr>var_err := None, var_baseFn := LookupTable_XferFn newLut\<rparr>))
            else Continue (v\<lparr>var_err := None\<rparr>))"
  using assms by (simp add: check_update_def Let_def)

lemma check_update_Continue:
  assumes "check_update opts s g v = Continue v'"
  shows "var_restoreOnExit v' = var_restoreOnExit v \<and> var_err v' = None \<and>
         var_lastUpdate v' = var_lastUpdate v \<and> var_exit v' = var_exit v"
  using assms
  by (auto simp: check_update_def Let_def split: result.splits if_splits)

lemma check_update_Break:
  assumes "check_update opts s g v = Break v'"
  shows "(var_err v' = Some ForeignCrtcUpdate \<and> \<not> var_restoreOnExit v') \<or>
         (var_err v' = Some ErrCrtcGamma \<and> var_restoreOnExit v' = var_restoreOnExit v)"
  using assms
  by (auto simp: check_update_def GetLookupTable_def Let_def
      split: result.splits if_splits list.splits option.splits)

lemma update_Continue:
  assumes "update opts xft anchor s env v = (acts, Continue v')"
  shows "GetLookupTable s (read_back env) = Ok (var_oldLut v') \<and> var_err v' = None \<and>
         var_restoreOnExit v' = var_restoreOnExit v \<and> var_baseFn v' = var_baseFn v \<and>
         var_lastUpdate v' = now_update env"
  using assms
  by (auto simp: update_def Let_def split: if_splits result.splits wakeup.splits)

lemma update_Break:
  assumes "update opts xft anchor s env v = (acts, Break v')"
  shows "var_err v' \<noteq> Some ForeignCrtcUpdate \<and> var_restoreOnExit v' = var_restoreOnExit v"
  using assms
  by (auto simp: update_def GetLookupTable_def Let_def
      split: if_splits result.splits wakeup.splits list.splits option.splits)

lemma iteration_Continue:
  assumes "iteration opts xft anchor s env v = (acts, Continue v')"
  shows "GetLookupTable s (read_back env) = Ok (var_oldLut v') \<and> var_err v' = None \<and>
         var_restoreOnExit v' = var_restoreOnExit v \<and> var_lastUpdate v' = now_update env"
proof (cases "check_update opts s (read_top env) v")
  case (Continue v1)
  with assms have u: "update opts xft anchor s env v1 = (acts, Continue v')"
    by (simp add: iteration_def)
  from update_Continue [OF u] check_update_Continue [OF Continue] show ?thesis by simp
next
  case (Break v1)
  with assms show ?thesis by (simp add: iteration_def)
next
  case Panicked
  with assms show ?thesis by (simp add: iteration_def)
qed

lemma iteration_Break:
  assumes "iteration opts xft anchor s env v = (acts, Break v')"
  shows "(var_err v' = Some ForeignCrtcUpdate \<and> \<not> var_restoreOnExit v') \<or>
         (var_err v' \<noteq> Some ForeignCrtcUpdate \<and> var_restoreOnExit v' = var_restoreOnExit v)"
proof (cases "check_update opts s (read_top env) v")
  case (Continue v1)
  with assms have u: "update opts xft anchor s env v1 = (acts, Break v')"
    by (simp add: iteration_def)
  from update_Break [OF u] check_update_Continue [OF Continue] show ?thesis by simp
next
  case (Break v1)
  with assms have "v' = v1" by (simp add: iteration_def)
  with check_update_Break [OF Break] show ?thesis by auto
next
  case Panicked
  with assms show ?thesis by (simp add: iteration_def)
qed

lemma iterations_run_last:
  assumes "iterations_run opts xft anchor s envs v = Some (acts, v')" and "envs \<noteq> []"
  shows "GetLookupTable s (read_back (last envs)) = Ok (var_oldLut v') \<and>
         var_lastUpdate v' = now_update (last envs)"
  using assms
proof (induction envs arbitrary: v acts)
  case Nil
  then show ?case by simp
next
  case (Cons env envs)
  from Cons.prems(1) obtain a1 v1 where
    it: "iteration opts xft anchor s env v = (a1, Continue v1)"
    by (auto split: if_splits prod.splits step.splits)
  from Cons.prems(1) it obtain a2 where
    rest: "iterations_run opts xft anchor s envs v1 = Some (a2, v')"
    by (auto split: if_splits option.splits)
  show ?case
  proof (cases "envs = []")
    case True
    with rest have "v' = v1" by simp
    with iteration_Continue [OF it] True show ?thesis by simp
  next
    case False
    with Cons.IH [OF rest] show ?thesis by simp
  qed
qed

lemma loop_append:
  assumes "iterations_run opts xft anchor s envs v = Some (acts, v')"
  shows "loop opts xft anchor s (envs @ rest) v =
           (case loop opts xft anchor s rest v' of
              None \<Rightarrow> None
            | Some (acts', r) \<Rightarrow> Some (acts @ acts', r))"
  using assms
proof (induction envs arbitrary: v acts)
  case Nil
  then show ?case by (simp split: option.splits)
next
  case (Cons env envs)
  from Cons.prems have ne: "\<not> var_exit v" by (auto split: if_splits)
  from Cons.prems obtain a1 v1 where
    it: "iteration opts xft anchor s env v = (a1, Continue v1)"
    by (auto split: if_splits prod.splits step.splits)
  from Cons.prems it ne obtain a2 where
    rest: "iterations_run opts xft anchor s envs v1 = Some (a2, v')" and acts: "acts = a1 @ a2"
    by (auto split: option.splits)
  show ?case
    using ne it Cons.IH [OF rest] acts
    by (simp split: option.splits)
qed

lemma GetLookupTable_examples:
  "GetLookupTable session2 (Some ramp_gamma) = Ok ramp2"
  "GetLookupTable session2 (Some dim_gamma) = Ok dim2"
  "GetLookupTable session2 (Some other_gamma) = Ok other2"
  "GetLookupTable session2 None = Err ErrCrtcGamma"
proof -
  have u: "[0..<2] = [0, Suc 0]" by (simp add: upt_rec)
  show "GetLookupTable session2 (Some ramp_gamma) = Ok ramp2"
    "GetLookupTable session2 (Some dim_gamma) = Ok dim2"
    "GetLookupTable session2 (Some other_gamma) = Ok other2"
    "GetLookupTable session2 None = Err ErrCrtcGamma"
    by (simp_all add: GetLookupTable_def session2_def ramp2_def dim2_def other2_def
        ramp_gamma_def dim_gamma_def other_gamma_def u)
qed

lemma NewSession_example: "NewSession (resources (example_world envs)) = Inr session2"
  by (simp add: NewSession_def example_world_def session2_def)

lemma clock_anchor_example:
  "\<not> startClockBeforeSetup opts \<Longrightarrow> initialClock opts = 0 \<Longrightarrow>
   clock_anchor opts (example_world envs) = T0"
  by (simp add: clock_anchor_def example_world_def Time_Add_def dneg_def wrap64_id)

lemma ramp2_XferFn_on_grid:
  "LookupTable_XferFn ramp2 ch 0 = Some 0" "LookupTable_XferFn ramp2 ch (1 / 2) = Some 1"
  by (simp_all add: LookupTable_XferFn_single [where lut = "[0, 65535]"] ramp2_def)

lemma SetGamma_returns_session2:
  "SetGamma_returns session2 fn \<longleftrightarrow>
     (\<forall>ch. fn ch 0 \<noteq> None \<and> fn ch (1 / 2) \<noteq> None)"
proof -
  have u: "[0..<2] = [0, Suc 0]" by (simp add: upt_rec)
  have "SetGamma_returns session2 fn \<longleftrightarrow>
        (\<forall>ch \<in> set [Red, Green, Blue]. fn ch 0 \<noteq> None \<and> fn ch (1 / 2) \<noteq> None)"
    by (simp add: SetGamma_returns_def session2_def u)
  then show ?thesis by (simp only: all_channels)
qed

lemma SetGamma_returns_examples:
  "SetGamma_returns session2 (LookupTable_XferFn ramp2)"
  "SetGamma_returns session2 (XferFn_Mul (LookupTable_XferFn ramp2) (DimFn (1 / 2)))"
  by (simp_all add: SetGamma_returns_session2 ramp2_XferFn_on_grid XferFn_Mul_def DimFn_def)

lemma blink_first:
  "blink () (Time_Sub (T0 + 1000) T0) b None =
     ((XferFn_Mul b (DimFn (1 / 2)), 999999000, False), ())"
proof -
  have t: "Time_Sub (T0 + 1000) T0 = 1000"
    by (simp add: Time_Sub_def maxDuration_def minDuration_def)
  have r: "go_rem 1000 (2 * Second) = 1000" "go_rem 1000 Second = 1000"
    by (simp_all add: go_rem_def Second_def)
  have d: "dsub Second 1000 = 999999000"
    by (simp add: dsub_id Second_def)
  show ?thesis
    unfolding t by (simp add: blink_def Let_def r d) (simp add: Second_def)
qed

lemma first_wait:
  "updateInterval opts = Second div 30 \<Longrightarrow>
   wait_for 999999000 (dsub (updateInterval opts) (Time_Sub (T0 + 2000) 0)) = 999999000"
proof -
  assume u: "updateInterval opts = Second div 30"
  have t: "Time_Sub (T0 + 2000) 0 = 2 ^ 63 - 1"
    by (simp add: Time_Sub_def maxDuration_def T0_def)
  have d: "dsub (Second div 30) (2 ^ 63 - 1) = Second div 30 - (2 ^ 63 - 1)"
    by (intro dsub_id) (simp_all add: Second_def)
  show ?thesis
    unfolding u t d by (simp add: wait_for_def Second_def)
qed

lemma update_first:
  assumes "updateInterval opts = Second div 30"
    and "var_baseFn v = LookupTable_XferFn ramp2" and "var_event v = None"
    and "var_lastUpdate v = 0"
  shows "update opts blink T0 session2 env_first v =
           ([SetGamma (XferFn_Mul (LookupTable_XferFn ramp2) (DimFn (1 / 2))), TimerReset 999999000],
            Continue (v\<lparr>var_exit := False, xft_state := (), var_oldLut := dim2, var_err := None,
                        var_lastUpdate := T0 + 2000, var_event := None\<rparr>))"
proof -
  have e: "now_xft env_first = T0 + 1000" "read_back env_first = Some dim_gamma"
    "now_update env_first = T0 + 2000" "wake env_first = TimerFired"
    by (simp_all add: env_first_def)
  have x: "xft_state v = ()" by simp
  show ?thesis
    by (simp add: update_def Let_def e assms(2,3,4) x blink_first SetGamma_returns_examples
        GetLookupTable_examples first_wait [OF assms(1)])
qed

lemma iteration_first:
  assumes "updateInterval opts = Second div 30"
  shows "iteration opts blink T0 session2 env_first (init_vars opts ()) =
           ([SetGamma (XferFn_Mul (LookupTable_XferFn ramp2) (DimFn (1 / 2))), TimerReset 999999000],
            Continue (vars_first opts))"
proof -
  have c: "check_update opts session2 (read_top env_first) (init_vars opts ()) =
           Continue ((init_vars opts ())\<lparr>var_err := None, var_baseFn := LookupTable_XferFn ramp2\<rparr>)"
    by (simp add: check_update_def env_first_def GetLookupTable_examples init_vars_def
        LookupTable_zero_def LookupTable_IsZero_def Let_def)
  have u: "update opts blink T0 session2 env_first
             ((init_vars opts ())\<lparr>var_err := None, var_baseFn := LookupTable_XferFn ramp2\<rparr>) =
           ([SetGamma (XferFn_Mul (LookupTable_XferFn ramp2) (DimFn (1 / 2))), TimerReset 999999000],
            Continue (vars_first opts))"
    by (subst update_first [OF assms]) (simp_all add: init_vars_def vars_first_def)
  show ?thesis
    unfolding iteration_def c using u by simp
qed

lemma iterations_run_first_example:
  assumes "updateInterval opts = Second div 30"
  shows "iterations_run opts blink T0 session2 [env_first] (init_vars opts ()) =
           Some ([SetGamma (XferFn_Mul (LookupTable_XferFn ramp2) (DimFn (1 / 2))),
                  TimerReset 999999000], vars_first opts)"
  by (simp add: iteration_first [OF assms]) (simp add: init_vars_def)

text \<open>
  Claim C1. In every iteration after the first, the table \<open>oldLut\<close> is the one read
  back after the previous iteration's write. If the table read at the top of the
  iteration is not equal to it, then under the exit policy the loop ends there and
  the run delivers \<open>ForeignCrtcUpdate\<close> on the error channel, and under the rebase
  policy the baseline becomes the transfer function of the new table and the
  iteration goes on to the driver call; if the two tables are equal, no error is set,
  the baseline is unchanged and the iteration goes on.
\<close>

theorem foreign_update_detection:
  assumes "NewSession (resources w) = Inr s"
    and "iterations w = envs @ env # rest" and "envs \<noteq> []"
    and "iterations_run opts xft (clock_anchor opts w) s envs (init_vars opts xs) = Some (acts, v)"
    and "\<not> var_exit v"
    and "GetLookupTable s (read_top env) = Ok newLut"
  shows "GetLookupTable s (read_back (last envs)) = Ok (var_oldLut v) \<and>
     (\<not> LookupTable_Equals newLut (var_oldLut v) \<and> exitOnForeignUpdate opts \<longrightarrow>
        check_update opts s (read_top env) v =
          Break (v\<lparr>var_err := Some ForeignCrtcUpdate, var_restoreOnExit := False\<rparr>) \<and>
        animate opts xft xs w =
          Some (acts @ [ErrSend ForeignCrtcUpdate, ErrClose, SessionClose], Returned)) \<and>
     (\<not> LookupTable_Equals newLut (var_oldLut v) \<and> \<not> exitOnForeignUpdate opts \<longrightarrow>
        check_update opts s (read_top env) v =
          Continue (v\<lparr>var_err := None, var_baseFn := LookupTable_XferFn newLut\<rparr>) \<and>
        iteration opts xft (clock_anchor opts w) s env v =
          update opts xft (clock_anchor opts w) s env
            (v\<lparr>var_err := None, var_baseFn := LookupTable_XferFn newLut\<rparr>)) \<and>
     (LookupTable_Equals newLut (var_oldLut v) \<longrightarrow>
        check_update opts s (read_top env) v = Continue (v\<lparr>var_err := None\<rparr>) \<and>
        iteration opts xft (clock_anchor opts w) s env v =
          update opts xft (clock_anchor opts w) s env (v\<lparr>var_err := None\<rparr>))"
proof -
  let ?a = "clock_anchor opts w"
  from iterations_run_last [OF assms(4) assms(3)]
  have old: "GetLookupTable s (read_back (last envs)) = Ok (var_oldLut v)" by simp
  then have nz: "\<not> LookupTable_IsZero (var_oldLut v)"
    by (rule GetLookupTable_Ok_not_zero)
  note cu = check_update_compared [OF assms(6) nz, of opts]
  have exit_case: "animate opts xft xs w =
          Some (acts @ [ErrSend ForeignCrtcUpdate, ErrClose, SessionClose], Returned)"
    if h: "\<not> LookupTable_Equals newLut (var_oldLut v)" "exitOnForeignUpdate opts"
  proof -
    let ?v = "v\<lparr>var_err := Some ForeignCrtcUpdate, var_restoreOnExit := False\<rparr>"
    have "iteration opts xft ?a s env v = ([], Break ?v)"
      using cu h by (simp add: iteration_def)
    then have "loop opts xft ?a s (env # rest) v = Some ([], Some ?v)"
      using assms(5) by simp
    then have l: "loop opts xft ?a s (iterations w) (init_vars opts xs) = Some (acts, Some ?v)"
      using loop_append [OF assms(4), of "env # rest"] assms(2) by simp
    have f: "finish s ?v = ([ErrSend ForeignCrtcUpdate, ErrClose, SessionClose], Returned)"
      by (simp add: finish_def bail_def)
    show ?thesis
      using assms(1) l f by (simp add: animate_def Let_def)
  qed
  show ?thesis
    using old cu exit_case by (simp add: iteration_def)
qed

theorem foreign_update_detection_witness:
  "NewSession (resources (example_world [env_first, env_foreign])) = Inr session2 \<and>
   iterations_run default_options blink
     (clock_anchor default_options (example_world [env_first, env_foreign])) session2 [env_first]
     (init_vars default_options ()) =
     Some ([SetGamma (XferFn_Mul (LookupTable_XferFn ramp2) (DimFn (1 / 2))),
            TimerReset 999999000], vars_first default_options) \<and>
   \<not> var_exit (vars_first default_options) \<and>
   GetLookupTable session2 (read_top env_foreign) = Ok other2 \<and>
   GetLookupTable session2 (read_top env_unchanged) = Ok dim2 \<and>
   var_oldLut (vars_first default_options) = dim2 \<and>
   \<not> LookupTable_Equals other2 dim2 \<and> LookupTable_Equals dim2 dim2 \<and>
   exitOnForeignUpdate default_options \<and>
   \<not> exitOnForeignUpdate (default_options\<lparr>exitOnForeignUpdate := False\<rparr>) \<and>
   animate default_options blink () (example_world [env_first, env_foreign]) =
     Some ([SetGamma (XferFn_Mul (LookupTable_XferFn ramp2) (DimFn (1 / 2))),
            TimerReset 999999000, ErrSend ForeignCrtcUpdate, ErrClose, SessionClose], Returned) \<and>
   check_update (default_options\<lparr>exitOnForeignUpdate := False\<rparr>) session2
     (read_top env_foreign) (vars_first (default_options\<lparr>exitOnForeignUpdate := False\<rparr>)) =
     Continue ((vars_first (default_options\<lparr>exitOnForeignUpdate := False\<rparr>))
                 \<lparr>var_err := None, var_baseFn := LookupTable_XferFn other2\<rparr>) \<and>
   check_update default_options session2 (read_top env_unchanged) (vars_first default_options) =
     Continue ((vars_first default_options)\<lparr>var_err := None\<rparr>)"
proof -
  let ?rebase = "default_options\<lparr>exitOnForeignUpdate := False\<rparr>"
  let ?acts = "[SetGamma (XferFn_Mul (LookupTable_XferFn ramp2) (DimFn (1 / 2))),
                TimerReset 999999000]"
  have o: "updateInterval default_options = Second div 30"
    "updateInterval ?rebase = Second div 30"
    "\<not> startClockBeforeSetup default_options" "initialClock default_options = 0"
    "\<not> startClockBeforeSetup ?rebase" "initialClock ?rebase = 0"
    "exitOnForeignUpdate default_options" "\<not> exitOnForeignUpdate ?rebase"
    by (simp_all add: default_options_def)
  have ns: "NewSession (resources (example_world envs)) = Inr session2" for envs
    by (rule NewSession_example)
  have it: "iterations (example_world [env_first, e]) = [env_first] @ e # []" for e
    by (simp add: example_world_def)
  have run: "iterations_run opts blink (clock_anchor opts (example_world envs)) session2
               [env_first] (init_vars opts ()) = Some (?acts, vars_first opts)"
    if "updateInterval opts = Second div 30" "\<not> startClockBeforeSetup opts"
      "initialClock opts = 0" for opts envs
    using that clock_anchor_example [of opts envs] iterations_run_first_example [of opts]
    by simp
  have ne: "\<not> var_exit (vars_first opts)" for opts
    by (simp add: vars_first_def)
  have old: "var_oldLut (vars_first opts) = dim2" for opts
    by (simp add: vars_first_def)
  have rd: "GetLookupTable session2 (read_top env_foreign) = Ok other2"
    "GetLookupTable session2 (read_top env_unchanged) = Ok dim2"
    by (simp_all add: env_foreign_def env_unchanged_def GetLookupTable_examples)
  have eq: "\<not> LookupTable_Equals other2 dim2" "LookupTable_Equals dim2 dim2"
    by (simp_all add: Equals_iff_eq other2_def dim2_def fun_eq_iff)
  from foreign_update_detection [OF ns it _ run [OF o(1,3,4)] ne rd(1)]
  have a: "animate default_options blink () (example_world [env_first, env_foreign]) =
             Some (?acts @ [ErrSend ForeignCrtcUpdate, ErrClose, SessionClose], Returned)"
    using eq(1) o(7) by (simp add: old)
  from foreign_update_detection [OF ns it _ run [OF o(2,5,6)] ne rd(1)]
  have b: "check_update ?rebase session2 (read_top env_foreign) (vars_first ?rebase) =
             Continue ((vars_first ?rebase)
                 \<lparr>var_err := None, var_baseFn := LookupTable_XferFn other2\<rparr>)"
    using eq(1) o(8) by (simp add: old)
  from foreign_update_detection [OF ns it _ run [OF o(1,3,4)] ne rd(2)]
  have c: "check_update default_options session2 (read_top env_unchanged)
             (vars_first default_options) = Continue ((vars_first default_options)\<lparr>var_err := None\<rparr>)"
    using eq(2) by (simp add: old)
  show ?thesis
    using ns run [OF o(1,3,4)] ne rd old eq o(7,8) a b c by simp
qed

lemma wait_for_max: "wait_for sleepFor extraTime = max sleepFor (max extraTime 0)"
  by (simp add: wait_for_def Let_def max_def)

lemma iterations_run_lastUpdate:
  assumes "iterations_run opts xft anchor s envs (init_vars opts xs) = Some (acts, v)"
  shows "var_lastUpdate v = (if envs = [] then 0 else now_update (last envs))"
proof (cases "envs = []")
  case True
  with assms show ?thesis by (auto simp: init_vars_def)
next
  case False
  with iterations_run_last [OF assms False] show ?thesis by simp
qed

text \<open>
  Claim C4. In every iteration that reaches the timer, the first one included, the
  duration given to the timer is the maximum of the \<open>sleepFor\<close> returned by the driver,
  of \<open>updateInterval\<close> minus the time elapsed since \<open>lastUpdate\<close> (the clock reading that
  followed the previous write; the zero time in the first iteration), and of 0. It is
  never negative and never below \<open>sleepFor\<close>. The subtraction is Go's on \<open>int64\<close>; it is
  the subtraction of the integers whenever the difference fits.
\<close>

theorem wait_is_max:
  assumes "iterations_run opts xft anchor s envs (init_vars opts xs) = Some (acts0, v)"
    and "check_update opts s (read_top env) v = Continue v1"
    and "xft (xft_state v1) (Time_Sub (now_xft env) anchor) (var_baseFn v1) (var_event v1) =
           ((curFn, sleepFor, ex), xs')"
    and "SetGamma_returns s curFn"
    and "GetLookupTable s (read_back env) = Ok lut"
    and "elapsed = Time_Sub (now_update env) (if envs = [] then 0 else now_update (last envs))"
  shows "fst (iteration opts xft anchor s env v) =
           [SetGamma curFn,
            TimerReset (max sleepFor (max (dsub (updateInterval opts) elapsed) 0))] \<and>
         0 \<le> max sleepFor (max (dsub (updateInterval opts) elapsed) 0) \<and>
         sleepFor \<le> max sleepFor (max (dsub (updateInterval opts) elapsed) 0) \<and>
         (- (2 ^ 63) \<le> updateInterval opts - elapsed \<and> updateInterval opts - elapsed < 2 ^ 63 \<longrightarrow>
            dsub (updateInterval opts) elapsed = updateInterval opts - elapsed)"
proof -
  have lu: "var_lastUpdate v1 = (if envs = [] then 0 else now_update (last envs))"
    using check_update_Continue [OF assms(2)] iterations_run_lastUpdate [OF assms(1)] by simp
  have "fst (update opts xft anchor s env v1) =
          [SetGamma curFn, TimerReset (wait_for sleepFor (dsub (updateInterval opts) elapsed))]"
    using assms(3,4,5) lu assms(6)
    by (simp add: update_def Let_def split: wakeup.splits)
  then have "fst (iteration opts xft anchor s env v) =
          [SetGamma curFn, TimerReset (wait_for sleepFor (dsub (updateInterval opts) elapsed))]"
    using assms(2) by (simp add: iteration_def)
  then show ?thesis
    by (simp add: wait_for_max dsub_id)
qed

lemma PowerFn_returns: "0 \<le> x \<Longrightarrow> PowerFn e ch x \<noteq> None"
  by (simp add: PowerFn_def go_Pow_def)

lemma pulse_result:
  "fst (snd (fst (pulse u t b ev))) = 0"
  "snd (snd (fst (pulse u t b ev))) = (12 * Second \<le> t)"
  "snd (pulse u t b ev) = u"
  "SetGamma_returns session2 (fst (fst (pulse u t b ev)))"
  by (simp_all add: pulse_def Let_def SetGamma_returns_session2 PowerFn_returns)

lemma first_wait_zero:
  "wait_for 0 (dsub 33333333 (Time_Sub (T0 + 2000) 0)) = 0"
proof -
  have t: "Time_Sub (T0 + 2000) 0 = 2 ^ 63 - 1"
    by (simp add: Time_Sub_def maxDuration_def T0_def)
  have d: "dsub 33333333 9223372036854775807 = 33333333 - 9223372036854775807"
    by (intro dsub_id) simp_all
  show ?thesis
    unfolding t by (simp add: d wait_for_def Second_def)
qed

lemma iterations_run_tick1:
  "iterations_run default_options pulse T0 session2 [env_tick1] (init_vars default_options ()) =
     Some ([SetGamma (fst (fst (pulse () 1000 (LookupTable_XferFn ramp2) (None :: unit option)))), TimerReset 0],
           vars_tick1)"
proof -
  let ?v0 = "(init_vars default_options ())\<lparr>var_err := None, var_baseFn := LookupTable_XferFn ramp2\<rparr>"
  have c: "check_update default_options session2 (read_top env_tick1) (init_vars default_options ()) =
           Continue ?v0"
    by (simp add: check_update_def env_tick1_def GetLookupTable_examples init_vars_def
        LookupTable_zero_def LookupTable_IsZero_def Let_def)
  have t: "Time_Sub (now_xft env_tick1) T0 = 1000"
    by (simp add: env_tick1_def Time_Sub_def maxDuration_def minDuration_def)
  have e: "read_back env_tick1 = Some ramp_gamma" "now_update env_tick1 = T0 + 2000"
    "wake env_tick1 = TimerFired"
    by (simp_all add: env_tick1_def)
  have v: "var_baseFn ?v0 = LookupTable_XferFn ramp2" "var_event ?v0 = None"
    "var_lastUpdate ?v0 = 0" "xft_state ?v0 = ()"
    by (simp_all add: init_vars_def)
  have u: "update default_options pulse T0 session2 env_tick1 ?v0 =
           ([SetGamma (fst (fst (pulse () 1000 (LookupTable_XferFn ramp2) (None :: unit option)))), TimerReset 0],
            Continue vars_tick1)"
    by (simp add: update_def Let_def t v e pulse_result GetLookupTable_examples first_wait_zero
        default_options_def Second_def init_vars_def vars_tick1_def)
  show ?thesis
    by (simp add: iteration_def c u) (simp add: init_vars_def)
qed

theorem wait_is_max_witness:
  "iterations_run default_options pulse T0 session2 [env_tick1] (init_vars default_options ()) =
     Some ([SetGamma (fst (fst (pulse () 1000 (LookupTable_XferFn ramp2) (None :: unit option)))),
            TimerReset 0], vars_tick1) \<and>
   check_update default_options session2 (read_top env_tick2) vars_tick1 = Continue vars_tick1 \<and>
   SetGamma_returns session2
     (fst (fst (pulse () 5001000 (LookupTable_XferFn ramp2) (None :: unit option)))) \<and>
   fst (snd (fst (pulse () 5001000 (LookupTable_XferFn ramp2) (None :: unit option)))) = 0 \<and>
   GetLookupTable session2 (read_back env_tick2) = Ok ramp2 \<and>
   Time_Sub (now_update env_tick2) (now_update env_tick1) = 5000000 \<and>
   updateInterval default_options = 33333333 \<and>
   dsub (updateInterval default_options) 5000000 = updateInterval default_options - 5000000 \<and>
   fst (iteration default_options pulse T0 session2 env_tick2 vars_tick1) =
     [SetGamma (fst (fst (pulse () 5001000 (LookupTable_XferFn ramp2) (None :: unit option)))),
      TimerReset 28333333]"
proof -
  let ?cur = "fst (fst (pulse () 5001000 (LookupTable_XferFn ramp2) (None :: unit option)))"
  have c: "check_update default_options session2 (read_top env_tick2) vars_tick1 =
           Continue vars_tick1"
    by (simp add: check_update_def env_tick2_def GetLookupTable_examples vars_tick1_def
        LookupTable_IsZero_def ramp2_def Equals_iff_eq Let_def)
  have t: "Time_Sub (now_xft env_tick2) T0 = 5001000"
    by (simp add: env_tick2_def Time_Sub_def maxDuration_def minDuration_def)
  have x: "pulse (xft_state vars_tick1) (Time_Sub (now_xft env_tick2) T0) (var_baseFn vars_tick1)
             (var_event vars_tick1) = ((?cur, 0, False), ())"
    unfolding t
    by (simp add: prod_eq_iff pulse_result vars_tick1_def Second_def)
  have g: "GetLookupTable session2 (read_back env_tick2) = Ok ramp2"
    by (simp add: env_tick2_def GetLookupTable_examples)
  have el: "Time_Sub (now_update env_tick2) (now_update env_tick1) = 5000000"
    by (simp add: env_tick2_def env_tick1_def Time_Sub_def maxDuration_def minDuration_def)
  have el': "5000000 = Time_Sub (now_update env_tick2)
               (if [env_tick1] = [] then 0 else now_update (last [env_tick1]))"
    using el by simp
  have ui: "updateInterval default_options = 33333333"
    by (simp add: default_options_def Second_def)
  have d: "dsub 33333333 5000000 = 28333333"
    by (simp add: dsub_id)
  from wait_is_max [OF iterations_run_tick1 c x pulse_result(4) g el']
  have r: "fst (iteration default_options pulse T0 session2 env_tick2 vars_tick1) =
          [SetGamma ?cur, TimerReset 28333333]"
    and n: "dsub (updateInterval default_options) 5000000 = updateInterval default_options - 5000000"
    by (simp_all add: ui d)
  show ?thesis
    by (intro conjI iterations_run_tick1 c g el ui n r pulse_result)
qed

lemma loop_restoreOnExit:
  assumes "loop opts xft anchor s envs v0 = Some (acts, Some v)"
    and "var_err v0 \<noteq> Some ForeignCrtcUpdate"
  shows "var_restoreOnExit v \<longleftrightarrow> var_restoreOnExit v0 \<and> var_err v \<noteq> Some ForeignCrtcUpdate"
  using assms
proof (induction envs arbitrary: v0 acts)
  case Nil
  then show ?case by (auto split: if_splits)
next
  case (Cons env envs)
  show ?case
  proof (cases "var_exit v0")
    case True
    with Cons.prems show ?thesis by auto
  next
    case False
    obtain a1 st where it: "iteration opts xft anchor s env v0 = (a1, st)"
      by (cases "iteration opts xft anchor s env v0")
    show ?thesis
    proof (cases st)
      case (Continue v1)
      from Cons.prems(1) False it Continue obtain a2 where
        rest: "loop opts xft anchor s envs v1 = Some (a2, Some v)"
        by (auto split: option.splits)
      from iteration_Continue [OF it [unfolded Continue]]
      have "var_err v1 = None" "var_restoreOnExit v1 = var_restoreOnExit v0" by simp_all
      with Cons.IH [OF rest] show ?thesis by simp
    next
      case (Break v1)
      from Cons.prems(1) False it Break have "v = v1" by simp
      with iteration_Break [OF it [unfolded Break]] show ?thesis by auto
    next
      case Panicked
      with Cons.prems(1) False it show ?thesis by simp
    qed
  qed
qed

lemma update_cancelled:
  assumes "updateInterval opts = Second div 30"
    and "var_baseFn v = LookupTable_XferFn ramp2" and "var_event v = None"
    and "var_lastUpdate v = 0"
  shows "update opts blink T0 session2 env_cancelled v =
           ([SetGamma (XferFn_Mul (LookupTable_XferFn ramp2) (DimFn (1 / 2))), TimerReset 999999000],
            Break (v\<lparr>var_exit := False, xft_state := (), var_oldLut := dim2, var_err := None,
                     var_lastUpdate := T0 + 2000, var_event := None\<rparr>))"
proof -
  have e: "now_xft env_cancelled = T0 + 1000" "read_back env_cancelled = Some dim_gamma"
    "now_update env_cancelled = T0 + 2000" "wake env_cancelled = Cancelled"
    by (simp_all add: env_cancelled_def)
  have x: "xft_state v = ()" by simp
  show ?thesis
    by (simp add: update_def Let_def e assms(2,3,4) x blink_first SetGamma_returns_examples
        GetLookupTable_examples first_wait [OF assms(1)])
qed

lemma update_read_back_fails:
  assumes "var_baseFn v = LookupTable_XferFn ramp2" and "var_event v = None"
  shows "update opts blink T0 session2 env_read_back_fails v =
           ([SetGamma (XferFn_Mul (LookupTable_XferFn ramp2) (DimFn (1 / 2)))],
            Break (v\<lparr>var_exit := False, xft_state := (), var_oldLut := LookupTable_zero,
                     var_err := Some ErrCrtcGamma\<rparr>))"
proof -
  have e: "now_xft env_read_back_fails = T0 + 1000" "read_back env_read_back_fails = None"
    by (simp_all add: env_read_back_fails_def)
  have x: "xft_state v = ()" by simp
  show ?thesis
    by (simp add: update_def Let_def e assms x blink_first SetGamma_returns_examples
        GetLookupTable_examples)
qed

lemma check_update_initial:
  "check_update opts session2 (Some ramp_gamma) (init_vars opts xs) =
     Continue ((init_vars opts xs)\<lparr>var_err := None, var_baseFn := LookupTable_XferFn ramp2\<rparr>)"
  by (simp add: check_update_def GetLookupTable_examples init_vars_def
      LookupTable_zero_def LookupTable_IsZero_def Let_def)

lemma loop_cancelled:
  "loop default_options blink T0 session2 [env_cancelled] (init_vars default_options ()) =
     Some ([SetGamma (XferFn_Mul (LookupTable_XferFn ramp2) (DimFn (1 / 2))),
            TimerReset 999999000], Some vars_cancelled)"
proof -
  have o: "updateInterval default_options = Second div 30"
    by (simp add: default_options_def)
  have r: "read_top env_cancelled = Some ramp_gamma" by (simp add: env_cancelled_def)
  have "iteration default_options blink T0 session2 env_cancelled (init_vars default_options ()) =
         ([SetGamma (XferFn_Mul (LookupTable_XferFn ramp2) (DimFn (1 / 2))),
           TimerReset 999999000], Break vars_cancelled)"
    unfolding iteration_def r check_update_initial
    by (simp add: update_cancelled [OF o] init_vars_def)
       (simp add: vars_cancelled_def default_options_def)
  then show ?thesis by (simp add: init_vars_def)
qed

lemma loop_read_back_fails:
  "loop default_options blink T0 session2 [env_read_back_fails] (init_vars default_options ()) =
     Some ([SetGamma (XferFn_Mul (LookupTable_XferFn ramp2) (DimFn (1 / 2)))],
           Some vars_read_back_fails)"
proof -
  have r: "read_top env_read_back_fails = Some ramp_gamma"
    by (simp add: env_read_back_fails_def)
  have "iteration default_options blink T0 session2 env_read_back_fails
          (init_vars default_options ()) =
         ([SetGamma (XferFn_Mul (LookupTable_XferFn ramp2) (DimFn (1 / 2)))],
          Break vars_read_back_fails)"
    unfolding iteration_def r check_update_initial
    by (simp add: update_read_back_fails init_vars_def)
       (simp add: vars_read_back_fails_def default_options_def)
  then show ?thesis by (simp add: init_vars_def)
qed

lemma finish_examples:
  "finish session2 vars_cancelled =
     ([SetGamma (LookupTable_XferFn ramp2), ErrClose, SessionClose], Returned)"
  "finish session2 vars_read_back_fails =
     ([SetGamma (LookupTable_XferFn ramp2), ErrSend ErrCrtcGamma, ErrClose, SessionClose], Returned)"
  by (simp_all add: finish_def bail_def vars_cancelled_def vars_read_back_fails_def
      SetGamma_returns_examples)

lemma default_clock_anchor: "clock_anchor default_options (example_world envs) = T0"
  by (rule clock_anchor_example) (simp_all add: default_options_def)

text \<open>
  Claim C2. Whenever the animation ends, exactly one value should be delivered on the
  error channel before it is closed. In a run that is cancelled after its first
  iteration (a clean exit), the goroutine restores the baseline and closes the channel
  without sending anything on it.
\<close>

theorem clean_exit_sends_nothing:
  "animate default_options blink () (example_world [env_cancelled]) =
     Some ([SetGamma (XferFn_Mul (LookupTable_XferFn ramp2) (DimFn (1 / 2))), TimerReset 999999000,
            SetGamma (LookupTable_XferFn ramp2), ErrClose, SessionClose], Returned)"
proof -
  have i: "iterations (example_world [env_cancelled]) = [env_cancelled]"
    by (simp add: example_world_def)
  have l: "loop default_options blink (clock_anchor default_options (example_world [env_cancelled]))
             session2 (iterations (example_world [env_cancelled])) (init_vars default_options ()) =
           Some ([SetGamma (XferFn_Mul (LookupTable_XferFn ramp2) (DimFn (1 / 2))),
                  TimerReset 999999000], Some vars_cancelled)"
    unfolding default_clock_anchor i by (rule loop_cancelled)
  show ?thesis
    by (simp add: animate_def Let_def NewSession_example l finish_examples del: loop.simps)
qed

text \<open>
  Claim C3 as stated: a run that ends with an error performs no restoring write. In a
  run whose first read-back fails, the loop ends with the error of \<open>GetLookupTable\<close>,
  and with the default options the goroutine still writes the baseline before it sends
  the error.
\<close>

theorem restore_after_read_failure_counterexample:
  "animate default_options blink () (example_world [env_read_back_fails]) =
     Some ([SetGamma (XferFn_Mul (LookupTable_XferFn ramp2) (DimFn (1 / 2))),
            SetGamma (LookupTable_XferFn ramp2), ErrSend ErrCrtcGamma, ErrClose, SessionClose],
           Returned)"
proof -
  have i: "iterations (example_world [env_read_back_fails]) = [env_read_back_fails]"
    by (simp add: example_world_def)
  have l: "loop default_options blink
             (clock_anchor default_options (example_world [env_read_back_fails]))
             session2 (iterations (example_world [env_read_back_fails]))
             (init_vars default_options ()) =
           Some ([SetGamma (XferFn_Mul (LookupTable_XferFn ramp2) (DimFn (1 / 2)))],
                 Some vars_read_back_fails)"
    unfolding default_clock_anchor i by (rule loop_read_back_fails)
  show ?thesis
    by (simp add: animate_def Let_def NewSession_example l finish_examples del: loop.simps)
qed

text \<open>
  Claim C3, amended. When \<open>NewSession\<close> fails, the goroutine sends the error and closes
  the channel without any write. When the loop has ended and the goroutine returns,
  it writes the baseline exactly once more after the actions of the loop if and only
  if the restore-on-exit option is active and the loop did not end with
  \<open>ForeignCrtcUpdate\<close>; then it sends the error, if there is one, and closes the
  channel. In particular an error of \<open>GetLookupTable\<close> does not suppress the restoring
  write.
\<close>

theorem restore_on_exit:
  "(NewSession (resources w) = Inl e \<longrightarrow>
      animate opts xft xs w = Some ([ErrSend e, ErrClose], Returned)) \<and>
   (NewSession (resources w) = Inr s \<and>
    loop opts xft (clock_anchor opts w) s (iterations w) (init_vars opts xs) = Some (acts, Some v) \<and>
    snd (finish s v) = Returned \<longrightarrow>
      animate opts xft xs w =
        Some (acts @
              (if restoreOnExit opts \<and> var_err v \<noteq> Some ForeignCrtcUpdate
               then [SetGamma (var_baseFn v)] else []) @
              bail (var_err v) @ [SessionClose], Returned))"
proof (intro conjI impI)
  assume "NewSession (resources w) = Inl e"
  then show "animate opts xft xs w = Some ([ErrSend e, ErrClose], Returned)"
    by (simp add: animate_def Let_def bail_def)
next
  assume h: "NewSession (resources w) = Inr s \<and>
    loop opts xft (clock_anchor opts w) s (iterations w) (init_vars opts xs) = Some (acts, Some v) \<and>
    snd (finish s v) = Returned"
  then have l: "loop opts xft (clock_anchor opts w) s (iterations w) (init_vars opts xs) =
                  Some (acts, Some v)" by simp
  from loop_restoreOnExit [OF l]
  have r: "var_restoreOnExit v \<longleftrightarrow>
             restoreOnExit opts \<and> var_err v \<noteq> Some ForeignCrtcUpdate"
    by (simp add: init_vars_def)
  have f: "fst (finish s v) =
             (if restoreOnExit opts \<and> var_err v \<noteq> Some ForeignCrtcUpdate
              then [SetGamma (var_baseFn v)] else []) @ bail (var_err v) @ [SessionClose]"
    using h r by (auto simp: finish_def split: if_splits)
  show "animate opts xft xs w =
        Some (acts @
              (if restoreOnExit opts \<and> var_err v \<noteq> Some ForeignCrtcUpdate
               then [SetGamma (var_baseFn v)] else []) @
              bail (var_err v) @ [SessionClose], Returned)"
    using h f by (simp add: animate_def Let_def)
qed

lemma loop_foreign:
  "loop default_options blink T0 session2 [env_first, env_foreign] (init_vars default_options ()) =
     Some ([SetGamma (XferFn_Mul (LookupTable_XferFn ramp2) (DimFn (1 / 2))),
            TimerReset 999999000], Some vars_foreign)"
proof -
  have o: "updateInterval default_options = Second div 30"
    by (simp add: default_options_def)
  have g: "GetLookupTable session2 (read_top env_foreign) = Ok other2"
    by (simp add: env_foreign_def GetLookupTable_examples)
  have nz: "\<not> LookupTable_IsZero (var_oldLut (vars_first default_options))"
    by (simp add: vars_first_def dim2_def LookupTable_IsZero_def)
  have ne: "\<not> LookupTable_Equals other2 (var_oldLut (vars_first default_options))"
    by (simp add: Equals_iff_eq vars_first_def other2_def dim2_def fun_eq_iff)
  have "check_update default_options session2 (read_top env_foreign) (vars_first default_options) =
          Break vars_foreign"
    using ne
    by (simp add: check_update_compared [OF g nz])
       (simp add: default_options_def vars_foreign_def vars_first_def)
  then have "loop default_options blink T0 session2 [env_foreign] (vars_first default_options) =
          Some ([], Some vars_foreign)"
    by (simp add: iteration_def) (simp add: vars_first_def)
  with loop_append [OF iterations_run_first_example [OF o], of "[env_foreign]"]
  show ?thesis by simp
qed

theorem restore_on_exit_witness:
  "NewSession (resources ((example_world [])\<lparr>resources := None\<rparr>)) = Inl ErrScreenResources \<and>
   animate default_options blink () ((example_world [])\<lparr>resources := None\<rparr>) =
     Some ([ErrSend ErrScreenResources, ErrClose], Returned) \<and>
   NewSession (resources (example_world [env_read_back_fails])) = Inr session2 \<and>
   loop default_options blink (clock_anchor default_options (example_world [env_read_back_fails]))
     session2 (iterations (example_world [env_read_back_fails])) (init_vars default_options ()) =
     Some ([SetGamma (XferFn_Mul (LookupTable_XferFn ramp2) (DimFn (1 / 2)))],
           Some vars_read_back_fails) \<and>
   snd (finish session2 vars_read_back_fails) = Returned \<and>
   restoreOnExit default_options \<and>
   var_err vars_read_back_fails = Some ErrCrtcGamma \<and>
   animate default_options blink () (example_world [env_read_back_fails]) =
     Some ([SetGamma (XferFn_Mul (LookupTable_XferFn ramp2) (DimFn (1 / 2))),
            SetGamma (LookupTable_XferFn ramp2), ErrSend ErrCrtcGamma, ErrClose, SessionClose],
           Returned) \<and>
   loop default_options blink (clock_anchor default_options (example_world [env_first, env_foreign]))
     session2 (iterations (example_world [env_first, env_foreign])) (init_vars default_options ()) =
     Some ([SetGamma (XferFn_Mul (LookupTable_XferFn ramp2) (DimFn (1 / 2))),
            TimerReset 999999000], Some vars_foreign) \<and>
   snd (finish session2 vars_foreign) = Returned \<and>
   var_err vars_foreign = Some ForeignCrtcUpdate \<and>
   animate default_options blink () (example_world [env_first, env_foreign]) =
     Some ([SetGamma (XferFn_Mul (LookupTable_XferFn ramp2) (DimFn (1 / 2))),
            TimerReset 999999000, ErrSend ForeignCrtcUpdate, ErrClose, SessionClose], Returned)"
proof -
  let ?w0 = "(example_world [])\<lparr>resources := None\<rparr> :: unit world"
  let ?w1 = "example_world [env_read_back_fails]"
  let ?w2 = "example_world [env_first, env_foreign]"
  have n0: "NewSession (resources ?w0) = Inl ErrScreenResources"
    by (simp add: NewSession_def)
  have l1: "loop default_options blink (clock_anchor default_options ?w1) session2
              (iterations ?w1) (init_vars default_options ()) =
            Some ([SetGamma (XferFn_Mul (LookupTable_XferFn ramp2) (DimFn (1 / 2)))],
                  Some vars_read_back_fails)"
    unfolding default_clock_anchor
    by (simp add: example_world_def loop_read_back_fails del: loop.simps)
  have l2: "loop default_options blink (clock_anchor default_options ?w2) session2
              (iterations ?w2) (init_vars default_options ()) =
            Some ([SetGamma (XferFn_Mul (LookupTable_XferFn ramp2) (DimFn (1 / 2))),
                   TimerReset 999999000], Some vars_foreign)"
    unfolding default_clock_anchor
    by (simp add: example_world_def loop_foreign del: loop.simps)
  have f1: "snd (finish session2 vars_read_back_fails) = Returned"
    by (simp add: finish_examples)
  have f2: "snd (finish session2 vars_foreign) = Returned"
    by (simp add: finish_def vars_foreign_def)
  have e: "restoreOnExit default_options" "var_err vars_read_back_fails = Some ErrCrtcGamma"
    "var_err vars_foreign = Some ForeignCrtcUpdate"
    "var_baseFn vars_read_back_fails = LookupTable_XferFn ramp2"
    by (simp_all add: default_options_def vars_read_back_fails_def vars_foreign_def)
  from restore_on_exit [where w = ?w0 and e = ErrScreenResources and opts = default_options
      and xft = blink and xs = "()"] n0
  have a0: "animate default_options blink () ?w0 =
              Some ([ErrSend ErrScreenResources, ErrClose], Returned)"
    by blast
  from restore_on_exit [where w = ?w1 and s = session2 and opts = default_options
      and xft = blink and xs = "()" and v = vars_read_back_fails]
    NewSession_example [of "[env_read_back_fails]"] l1 f1
  have a1: "animate default_options blink () ?w1 =
     Some ([SetGamma (XferFn_Mul (LookupTable_XferFn ramp2) (DimFn (1 / 2))),
            SetGamma (LookupTable_XferFn ramp2), ErrSend ErrCrtcGamma, ErrClose, SessionClose],
           Returned)"
    by (simp add: e bail_def del: loop.simps)
  from restore_on_exit [where w = ?w2 and s = session2 and opts = default_options
      and xft = blink and xs = "()" and v = vars_foreign]
    NewSession_example [of "[env_first, env_foreign]"] l2 f2
  have a2: "animate default_options blink () ?w2 =
     Some ([SetGamma (XferFn_Mul (LookupTable_XferFn ramp2) (DimFn (1 / 2))),
            TimerReset 999999000, ErrSend ForeignCrtcUpdate, ErrClose, SessionClose], Returned)"
    by (simp add: e bail_def del: loop.simps)
  show ?thesis
    by (intro conjI n0 a0 NewSession_example l1 f1 e a1 l2 f2 a2)
qed

text \<open>When the very first read fails, the baseline is still the nil function: with the
  restore-on-exit option the restoring write calls it, and the goroutine panics before
  it sends the error.\<close>

lemma first_read_failure_panics:
  "animate default_options blink ()
     (example_world [env_first\<lparr>read_top := None\<rparr>]) =
     Some ([SetGamma nil_XferFn, SessionClose], Crashed)"
proof -
  let ?w = "example_world [env_first\<lparr>read_top := None\<rparr>]"
  let ?v = "(init_vars default_options () :: (unit, unit) vars)\<lparr>var_err := Some ErrCrtcGamma\<rparr>"
  have c: "check_update default_options session2 None (init_vars default_options ()) = Break ?v"
    by (simp add: check_update_def GetLookupTable_examples)
  have l: "loop default_options blink (clock_anchor default_options ?w) session2
             (iterations ?w) (init_vars default_options ()) = Some ([], Some ?v)"
    by (simp add: example_world_def iteration_def c) (simp add: init_vars_def)
  have f: "finish session2 ?v = ([SetGamma nil_XferFn, SessionClose], Crashed)"
    by (simp add: finish_def init_vars_def default_options_def SetGamma_returns_session2
        nil_XferFn_def)
  show ?thesis
    by (simp add: animate_def Let_def NewSession_example l f del: loop.simps)
qed

text \<open>The loop itself never touches the error channel; a run that returns sends the
  error, if the loop ended with one, and then closes the channel; a clean run only
  closes it.\<close>

lemma update_no_chan_op:
  "update opts xft anchor s env v = (acts, st) \<Longrightarrow> filter is_chan_op acts = []"
  by (auto simp: update_def Let_def split: if_splits result.splits wakeup.splits)

lemma iteration_no_chan_op:
  "iteration opts xft anchor s env v = (acts, st) \<Longrightarrow> filter is_chan_op acts = []"
  by (auto simp: iteration_def update_no_chan_op split: step.splits)

lemma loop_no_chan_op:
  "loop opts xft anchor s envs v = Some (acts, r) \<Longrightarrow> filter is_chan_op acts = []"
proof (induction envs arbitrary: v acts)
  case Nil
  then show ?case by (auto split: if_splits)
next
  case (Cons env envs)
  show ?case
  proof (cases "var_exit v")
    case True
    with Cons.prems show ?thesis by auto
  next
    case False
    obtain a1 st where it: "iteration opts xft anchor s env v = (a1, st)"
      by (cases "iteration opts xft anchor s env v")
    note a1 = iteration_no_chan_op [OF it]
    show ?thesis
    proof (cases st)
      case (Continue v1)
      from Cons.prems False it Continue obtain a2 where
        rest: "loop opts xft anchor s envs v1 = Some (a2, r)" and acts: "acts = a1 @ a2"
        by (auto split: option.splits)
      from Cons.IH [OF rest] a1 acts show ?thesis by simp
    next
      case (Break v1)
      with Cons.prems False it a1 show ?thesis by auto
    next
      case Panicked
      with Cons.prems False it a1 show ?thesis by auto
    qed
  qed
qed

lemma error_channel_operations:
  assumes "NewSession (resources w) = Inr s"
    and "loop opts xft (clock_anchor opts w) s (iterations w) (init_vars opts xs) =
           Some (a1, Some v)"
    and "snd (finish s v) = Returned"
  shows "\<exists>acts. animate opts xft xs w = Some (acts, Returned) \<and>
           filter is_chan_op acts =
             (case var_err v of None \<Rightarrow> [ErrClose] | Some e \<Rightarrow> [ErrSend e, ErrClose])"
proof -
  have a: "animate opts xft xs w = Some (a1 @ fst (finish s v), Returned)"
    using assms by (simp add: animate_def Let_def)
  have "filter is_chan_op (fst (finish s v)) = bail (var_err v)"
    using assms(3) by (auto simp: finish_def bail_def split: option.splits if_splits)
  then have "filter is_chan_op (a1 @ fst (finish s v)) =
               (case var_err v of None \<Rightarrow> [ErrClose] | Some e \<Rightarrow> [ErrSend e, ErrClose])"
    using loop_no_chan_op [OF assms(2)] by (simp add: bail_def split: option.splits)
  with a show ?thesis by blast
qed

end
